theory Spec2Isabelle
  imports Main
begin

section \<open>JavaScript values, strings and exceptions\<close>

text \<open>
  The template editor is a React component written in TypeScript; its data are plain
  JavaScript objects obtained from JSON. A field of a section may be missing at run time
  (reading it gives \<open>undefined\<close>), and \<open>handleSectionChange\<close> stores a value of type
  \<open>any\<close>, so field values are modelled dynamically. Numbers are integers here: the
  component only ever computes \<open>length + 1\<close> and \<open>idx + 1\<close>; fractions and NaN are
  outside the model.
\<close>

datatype jsval = JUndefined | JNull | JBool bool | JNum int | JStr string

fun truthy :: "jsval \<Rightarrow> bool" where
  "truthy JUndefined = False"
| "truthy JNull = False"
| "truthy (JBool b) = b"
| "truthy (JNum n) = (n \<noteq> 0)"
| "truthy (JStr s) = (s \<noteq> [])"

text \<open>The operator \<open>x || d\<close>.\<close>

definition js_or :: "jsval \<Rightarrow> jsval \<Rightarrow> jsval" where
  "js_or x d = (if truthy x then x else d)"

text \<open>
  Strings are byte strings in the encoding of the source files (UTF-8), so an accented
  letter of the French messages is two bytes.
\<close>

definition e_acute :: string where
  "e_acute = [CHR 0xC3, CHR 0xA9]"

definition e_grave :: string where
  "e_grave = [CHR 0xC3, CHR 0xA8]"

text \<open>\<open>String.prototype.startsWith\<close>.\<close>

fun startsWith :: "string \<Rightarrow> string \<Rightarrow> bool" where
  "startsWith s [] = True"
| "startsWith [] (p # ps) = False"
| "startsWith (c # s) (p # ps) = (c = p \<and> startsWith s ps)"

text \<open>
  \<open>String.prototype.trim\<close> removes white space and line terminators from both ends.
  \<open>white_space\<close> lists the UTF-8 encodings of the code points concerned: U+0009 to
  U+000D, U+0020, U+00A0, U+1680, U+2000 to U+200A, U+2028, U+2029, U+202F, U+205F,
  U+3000 and U+FEFF. \<open>strip\<close> removes such sequences from the front for as long as
  there is one.
\<close>

definition white_space :: "string list" where
  "white_space =
     [[CHR 0x09], [CHR 0x0A], [CHR 0x0B], [CHR 0x0C], [CHR 0x0D], [CHR 0x20],
      [CHR 0xC2, CHR 0xA0], [CHR 0xE1, CHR 0x9A, CHR 0x80],
      [CHR 0xE2, CHR 0x80, CHR 0x80], [CHR 0xE2, CHR 0x80, CHR 0x81],
      [CHR 0xE2, CHR 0x80, CHR 0x82], [CHR 0xE2, CHR 0x80, CHR 0x83],
      [CHR 0xE2, CHR 0x80, CHR 0x84], [CHR 0xE2, CHR 0x80, CHR 0x85],
      [CHR 0xE2, CHR 0x80, CHR 0x86], [CHR 0xE2, CHR 0x80, CHR 0x87],
      [CHR 0xE2, CHR 0x80, CHR 0x88], [CHR 0xE2, CHR 0x80, CHR 0x89],
      [CHR 0xE2, CHR 0x80, CHR 0x8A], [CHR 0xE2, CHR 0x80, CHR 0xA8],
      [CHR 0xE2, CHR 0x80, CHR 0xA9], [CHR 0xE2, CHR 0x80, CHR 0xAF],
      [CHR 0xE2, CHR 0x81, CHR 0x9F], [CHR 0xE3, CHR 0x80, CHR 0x80],
      [CHR 0xEF, CHR 0xBB, CHR 0xBF]]"

function strip :: "string list \<Rightarrow> string \<Rightarrow> string" where
  "strip ws s =
     (case find (\<lambda>w. w \<noteq> [] \<and> startsWith s w) ws of
        None \<Rightarrow> s
      | Some w \<Rightarrow> strip ws (drop (length w) s))"
  by pat_completeness auto
termination
proof (relation "measure (\<lambda>(ws, s). length s)")
  show "wf (measure (\<lambda>(ws, s). length s))" by simp
next
  fix ws :: "string list" and s w :: string
  assume "find (\<lambda>w. w \<noteq> [] \<and> startsWith s w) ws = Some w"
  then have "w \<noteq> []" and "startsWith s w"
    by (auto simp: find_Some_iff)
  then have "s \<noteq> []" by (cases s; cases w) simp_all
  with \<open>w \<noteq> []\<close> show "((ws, drop (length w) s), (ws, s)) \<in> measure (\<lambda>(ws, s). length s)"
    by simp
qed

declare strip.simps [simp del]

definition trim :: "string \<Rightarrow> string" where
  "trim s = rev (strip (map rev white_space) (rev (strip white_space s)))"

text \<open>The decimal numeral of a number inside a template literal.\<close>

function string_of_nat :: "nat \<Rightarrow> string" where
  "string_of_nat n =
     (if n < 10 then [''0123456789'' ! n]
      else string_of_nat (n div 10) @ [''0123456789'' ! (n mod 10)])"
  by pat_completeness auto
termination
  by (relation "measure id") auto

declare string_of_nat.simps [simp del]

text \<open>
  Exceptions are values. The message of a \<open>TypeError\<close> raised by the engine for a
  property access on \<open>undefined\<close> or \<open>null\<close> is written in the wording of V8.
\<close>

datatype js_error = TypeError string | SyntaxError string | Error string

fun message :: "js_error \<Rightarrow> string" where
  "message (TypeError m) = m"
| "message (SyntaxError m) = m"
| "message (Error m) = m"

definition cannot_read :: "string \<Rightarrow> string \<Rightarrow> js_error" where
  "cannot_read what prop =
     TypeError (''Cannot read properties of '' @ what @ '' (reading '' @ [CHR 0x27] @ prop @ [CHR 0x27] @ '')'')"

definition cannot_set :: "string \<Rightarrow> string \<Rightarrow> js_error" where
  "cannot_set what prop =
     TypeError (''Cannot set properties of '' @ what @ '' (setting '' @ [CHR 0x27] @ prop @ [CHR 0x27] @ '')'')"

section \<open>Sections, templates and the object store\<close>

text \<open>
  \<open>interface Section\<close>. Every field holds a JavaScript value; \<open>JUndefined\<close> is a missing
  field. The fields carry the prefix \<open>sec_\<close> (and those of a template \<open>tpl_\<close>) because
  both interfaces have \<open>id\<close>, \<open>name\<close> and \<open>description\<close>.
\<close>

record Section =
  sec_id :: jsval
  sec_name :: jsval
  sec_description :: jsval
  sec_required :: jsval
  sec_default_enabled :: jsval
  sec_order :: jsval
  sec_rag_query_template :: jsval
  sec_prompt_template :: jsval

text \<open>\<open>keyof Section\<close>, and reading and writing a field by its key.\<close>

datatype field =
  F_id | F_name | F_description | F_required | F_default_enabled | F_order
  | F_rag_query_template | F_prompt_template

fun get_field :: "field \<Rightarrow> Section \<Rightarrow> jsval" where
  "get_field F_id s = sec_id s"
| "get_field F_name s = sec_name s"
| "get_field F_description s = sec_description s"
| "get_field F_required s = sec_required s"
| "get_field F_default_enabled s = sec_default_enabled s"
| "get_field F_order s = sec_order s"
| "get_field F_rag_query_template s = sec_rag_query_template s"
| "get_field F_prompt_template s = sec_prompt_template s"

fun set_field :: "field \<Rightarrow> jsval \<Rightarrow> Section \<Rightarrow> Section" where
  "set_field F_id v s = s\<lparr>sec_id := v\<rparr>"
| "set_field F_name v s = s\<lparr>sec_name := v\<rparr>"
| "set_field F_description v s = s\<lparr>sec_description := v\<rparr>"
| "set_field F_required v s = s\<lparr>sec_required := v\<rparr>"
| "set_field F_default_enabled v s = s\<lparr>sec_default_enabled := v\<rparr>"
| "set_field F_order v s = s\<lparr>sec_order := v\<rparr>"
| "set_field F_rag_query_template v s = s\<lparr>sec_rag_query_template := v\<rparr>"
| "set_field F_prompt_template v s = s\<lparr>sec_prompt_template := v\<rparr>"

text \<open>The object \<open>{}\<close>.\<close>

definition empty_object :: Section where
  "empty_object =
     \<lparr>sec_id = JUndefined, sec_name = JUndefined, sec_description = JUndefined,
      sec_required = JUndefined, sec_default_enabled = JUndefined, sec_order = JUndefined,
      sec_rag_query_template = JUndefined, sec_prompt_template = JUndefined\<rparr>"

text \<open>
  \<open>interface Template\<close>, with the element type of \<open>sections\<close> as a parameter: in a JSON
  document an element is a section or \<open>null\<close> (\<open>Section option\<close>); in the memory of the
  component it is a slot of an array (\<open>slot\<close>, below). The id may be absent, which
  \<open>handleSave\<close> tests for.
\<close>

record 'e Template =
  tpl_id :: "string option"
  tpl_name :: string
  tpl_description :: string
  tpl_sections :: "'e list"
  tpl_is_default :: bool
  tpl_is_custom :: bool

text \<open>
  Section objects live in a store, because \<open>deleteSection\<close> assigns to \<open>section.order\<close>
  in place and the same section object can be reachable from several templates. An
  address is a position of the store; allocation appends. Template objects and arrays are
  values: the component never writes to one after it has been put into the React state
  (every update builds a new object with a spread), so their identity is not observable.

  A slot of an array is a reference to a section object, a hole (an index never assigned,
  which \<open>handleSectionChange\<close> leaves behind when it writes beyond the end), or the
  value \<open>undefined\<close> or \<open>null\<close>.
\<close>

type_synonym addr = nat

type_synonym heap = "Section list"

datatype slot = Obj addr | Hole | Undef | Null

definition alloc :: "Section \<Rightarrow> heap \<Rightarrow> addr \<times> heap" where
  "alloc s h = (length h, h @ [s])"

text \<open>\<open>JSON.stringify\<close> of an array of sections: holes and \<open>undefined\<close> become \<open>null\<close>.\<close>

fun stringify_slot :: "heap \<Rightarrow> slot \<Rightarrow> Section option" where
  "stringify_slot h (Obj a) = Some (h ! a)"
| "stringify_slot h Hole = None"
| "stringify_slot h Undef = None"
| "stringify_slot h Null = None"

definition stringify_sections :: "heap \<Rightarrow> slot list \<Rightarrow> Section option list" where
  "stringify_sections h xs = map (stringify_slot h) xs"

text \<open>\<open>JSON.parse\<close> of an array of sections: every object of the text is a new object.\<close>

fun parse_sections :: "Section option list \<Rightarrow> heap \<Rightarrow> slot list \<times> heap" where
  "parse_sections [] h = ([], h)"
| "parse_sections (None # js) h =
     (case parse_sections js h of (xs, h') \<Rightarrow> (Null # xs, h'))"
| "parse_sections (Some s # js) h =
     (case alloc s h of (a, h1) \<Rightarrow>
        (case parse_sections js h1 of (xs, h2) \<Rightarrow> (Obj a # xs, h2)))"

definition stringify_template :: "heap \<Rightarrow> slot Template \<Rightarrow> Section option Template" where
  "stringify_template h t =
     \<lparr>tpl_id = tpl_id t, tpl_name = tpl_name t, tpl_description = tpl_description t,
      tpl_sections = stringify_sections h (tpl_sections t),
      tpl_is_default = tpl_is_default t, tpl_is_custom = tpl_is_custom t\<rparr>"

definition parse_template :: "Section option Template \<Rightarrow> heap \<Rightarrow> slot Template \<times> heap" where
  "parse_template j h =
     (case parse_sections (tpl_sections j) h of (xs, h') \<Rightarrow>
        (\<lparr>tpl_id = tpl_id j, tpl_name = tpl_name j, tpl_description = tpl_description j,
          tpl_sections = xs,
          tpl_is_default = tpl_is_default j, tpl_is_custom = tpl_is_custom j\<rparr>, h'))"

fun parse_templates :: "Section option Template list \<Rightarrow> heap \<Rightarrow> slot Template list \<times> heap" where
  "parse_templates [] h = ([], h)"
| "parse_templates (j # js) h =
     (case parse_template j h of (t, h1) \<Rightarrow>
        (case parse_templates js h1 of (ts, h2) \<Rightarrow> (t # ts, h2)))"

text \<open>The deep copy \<open>JSON.parse(JSON.stringify(x))\<close>, of a template and of an array of sections.\<close>

definition deep_copy_template :: "slot Template \<Rightarrow> heap \<Rightarrow> slot Template \<times> heap" where
  "deep_copy_template t h = parse_template (stringify_template h t) h"

definition deep_copy_sections :: "slot list \<Rightarrow> heap \<Rightarrow> slot list \<times> heap" where
  "deep_copy_sections xs h = parse_sections (stringify_sections h xs) h"

text \<open>
  Array operations of JavaScript: the spread \<open>[...xs]\<close> (holes are read as \<open>undefined\<close>),
  the read \<open>xs[i]\<close> (\<open>undefined\<close> out of range and at a hole), the assignment
  \<open>xs[i] = v\<close> (which extends the array, leaving holes), \<open>xs.splice(i, 1)\<close>, and the
  spread \<open>{...x}\<close> of a slot's value into a new object. An index is a natural number:
  negative and fractional indices are outside the model.
\<close>

fun spread_slot :: "slot \<Rightarrow> slot" where
  "spread_slot Hole = Undef"
| "spread_slot x = x"

definition spread_array :: "slot list \<Rightarrow> slot list" where
  "spread_array xs = map spread_slot xs"

definition array_get :: "slot list \<Rightarrow> nat \<Rightarrow> slot" where
  "array_get xs i = (if i < length xs then spread_slot (xs ! i) else Undef)"

definition array_set :: "slot list \<Rightarrow> nat \<Rightarrow> slot \<Rightarrow> slot list" where
  "array_set xs i v =
     (if i < length xs then xs[i := v] else xs @ replicate (i - length xs) Hole @ [v])"

definition splice1 :: "slot list \<Rightarrow> nat \<Rightarrow> slot list" where
  "splice1 xs i = take i xs @ drop (Suc i) xs"

fun spread_object :: "heap \<Rightarrow> slot \<Rightarrow> Section" where
  "spread_object h (Obj a) = h ! a"
| "spread_object h Hole = empty_object"
| "spread_object h Undef = empty_object"
| "spread_object h Null = empty_object"

section \<open>The state of the component and its environment\<close>

text \<open>
  A toast, a request sent with \<open>fetch\<close>, and what \<open>fetch\<close> gives back. The reply of
  the backend is an input of a handler: the promise is rejected (network failure), or
  there is a response with a status, a body text (\<open>None\<close> when reading it fails) and the
  result of parsing the body as JSON.
\<close>

record toast =
  toast_title :: string
  toast_description :: string
  toast_destructive :: bool

datatype http_method = GET | POST | PUT | DELETE

record save_body =
  body_name :: string
  body_description :: string
  body_sections :: "Section option list"
  body_is_default :: bool

record request =
  req_method :: http_method
  req_url :: string
  req_body :: "save_body option"

record 'a response =
  status :: nat
  body_text :: "string option"
  body_json :: "js_error + 'a"

datatype 'a fetch_result = Rejected js_error | Responded "'a response"

text \<open>\<open>response.ok\<close>.\<close>

definition ok :: "'a response \<Rightarrow> bool" where
  "ok r = (200 \<le> status r \<and> status r \<le> 299)"

text \<open>The call to the backend failed: the promise was rejected or the response is not ok.\<close>

fun failed :: "'a fetch_result \<Rightarrow> bool" where
  "failed (Rejected err) = True"
| "failed (Responded response) = (\<not> ok response)"

text \<open>The backend answered a save with an ok response whose body is JSON.\<close>

fun delivered :: "'a fetch_result \<Rightarrow> bool" where
  "delivered (Rejected err) = False"
| "delivered (Responded response) =
     (ok response \<and> (case body_json response of Inl err \<Rightarrow> False | Inr json \<Rightarrow> True))"

text \<open>
  The \<open>useState\<close> cells of \<open>TemplateManager\<close>, the store of section objects, and two
  logs that make the effects observable: the toasts shown and the requests sent.
\<close>

record state =
  templates :: "slot Template list"
  activeTemplate :: "slot Template option"
  editedTemplate :: "slot Template option"
  isLoading :: bool
  isSaving :: bool
  isDeleting :: bool
  error :: "string option"
  success :: "string option"
  showCreateDialog :: bool
  newTemplateName :: string
  newTemplateDescription :: string
  baseTemplateId :: string
  heap :: heap
  toasts :: "toast list"
  requests :: "request list"

definition show_toast :: "string \<Rightarrow> string \<Rightarrow> bool \<Rightarrow> state \<Rightarrow> state" where
  "show_toast title description destructive st =
     st\<lparr>toasts := toasts st @
        [\<lparr>toast_title = title, toast_description = description,
          toast_destructive = destructive\<rparr>]\<rparr>"

definition send :: "http_method \<Rightarrow> string \<Rightarrow> save_body option \<Rightarrow> state \<Rightarrow> state" where
  "send m url b st =
     st\<lparr>requests := requests st @ [\<lparr>req_method = m, req_url = url, req_body = b\<rparr>]\<rparr>"

definition backend :: string where
  "backend = ''http://127.0.0.1:8050/templates''"

text \<open>The request with which \<open>fetchTemplates\<close> asks for the list.\<close>

definition list_request :: request where
  "list_request = \<lparr>req_method = GET, req_url = backend, req_body = None\<rparr>"

text \<open>A template literal prints an absent id as \<open>undefined\<close>.\<close>

definition id_text :: "string option \<Rightarrow> string" where
  "id_text i = (case i of None \<Rightarrow> ''undefined'' | Some s \<Rightarrow> s)"

text \<open>The request with which \<open>handleDelete\<close> asks the backend to delete a template.\<close>

definition delete_request :: "slot Template \<Rightarrow> request" where
  "delete_request t =
     \<lparr>req_method = DELETE, req_url = ''http://127.0.0.1:8050/templates/'' @ id_text (tpl_id t),
      req_body = None\<rparr>"

section \<open>The handlers of the template editor\<close>

subsection \<open>fetchTemplates and handleTemplateChange\<close>

text \<open>
  A handler runs to its end without another handler in between, so the value of
  \<open>activeTemplate\<close> that its closure holds is the one of the state it started in; no
  handler sets \<open>activeTemplate\<close> before it calls \<open>fetchTemplates\<close>.
\<close>

definition fetchTemplates_catch :: "js_error \<Rightarrow> state \<Rightarrow> state" where
  "fetchTemplates_catch err st =
     show_toast ''Erreur''
       (''Impossible de charger les templates. Veuillez r'' @ e_acute @ ''essayer.'') True
       (st\<lparr>error := Some (''Erreur lors du chargement des templates: '' @ message err)\<rparr>)"

definition fetchTemplates_try ::
  "Section option Template list fetch_result \<Rightarrow> state \<Rightarrow> state" where
  "fetchTemplates_try reply st =
     (case reply of
        Rejected err \<Rightarrow> fetchTemplates_catch err st
      | Responded response \<Rightarrow>
          if \<not> ok response then
            fetchTemplates_catch
              (Error (''Erreur lors du chargement des templates: '' @ string_of_nat (status response))) st
          else
            (case body_json response of
               Inl err \<Rightarrow> fetchTemplates_catch err st
             | Inr data \<Rightarrow>
                 (case parse_templates data (heap st) of
                    (templatesArray, h1) \<Rightarrow>
                      let st1 = st\<lparr>templates := templatesArray, heap := h1\<rparr> in
                      (case templatesArray of
                         [] \<Rightarrow> st1
                       | first # _ \<Rightarrow>
                           if activeTemplate st = None then
                             (case deep_copy_template first h1 of
                                (copy, h2) \<Rightarrow>
                                  st1\<lparr>activeTemplate := Some first,
                                      editedTemplate := Some copy, heap := h2\<rparr>)
                           else st1))))"

definition fetchTemplates ::
  "Section option Template list fetch_result \<Rightarrow> state \<Rightarrow> state" where
  "fetchTemplates reply st =
     (fetchTemplates_try reply
        (send (req_method list_request) (req_url list_request) (req_body list_request)
           (st\<lparr>isLoading := True, error := None\<rparr>)))
     \<lparr>isLoading := False\<rparr>"

definition handleTemplateChange :: "slot Template \<Rightarrow> state \<Rightarrow> state" where
  "handleTemplateChange template st =
     (case deep_copy_template template (heap st) of
        (copy, h) \<Rightarrow>
          st\<lparr>activeTemplate := Some template, editedTemplate := Some copy, heap := h\<rparr>)"

subsection \<open>handleSectionChange, addSection and deleteSection\<close>

definition handleSectionChange :: "nat \<Rightarrow> field \<Rightarrow> jsval \<Rightarrow> state \<Rightarrow> state" where
  "handleSectionChange index fld v st =
     (case editedTemplate st of
        None \<Rightarrow> st
      | Some edited \<Rightarrow>
          let updatedSections = spread_array (tpl_sections edited) in
          (case alloc (set_field fld v (spread_object (heap st) (array_get updatedSections index)))
                  (heap st) of
             (a, h) \<Rightarrow>
               st\<lparr>editedTemplate :=
                     Some (edited\<lparr>tpl_sections := array_set updatedSections index (Obj a)\<rparr>),
                   heap := h\<rparr>))"

text \<open>
  The two template strings that \<open>addSection\<close> gives a new section and that
  \<open>handleSave\<close> uses as defaults.
\<close>

definition default_rag_query_template :: string where
  "default_rag_query_template =
     ''informations sur {product_name} dans la cat'' @ e_acute @ ''gorie {product_category}''"

definition default_prompt_template :: string where
  "default_prompt_template =
     ''G'' @ e_acute @ ''n'' @ e_acute @ ''rer une section sur {product_name} en utilisant les informations suivantes: {client_data_context}''"

text \<open>\<open>addSection\<close>; the argument \<open>now\<close> is the value of \<open>Date.now()\<close>.\<close>

definition newSection :: "nat \<Rightarrow> nat \<Rightarrow> Section" where
  "newSection now n =
     \<lparr>sec_id = JStr (''section_'' @ string_of_nat now),
      sec_name = JStr ''Nouvelle section'',
      sec_description = JStr ''Description de la nouvelle section'',
      sec_required = JBool False,
      sec_default_enabled = JBool True,
      sec_order = JNum (int n + 1),
      sec_rag_query_template = JStr default_rag_query_template,
      sec_prompt_template = JStr default_prompt_template\<rparr>"

definition addSection :: "nat \<Rightarrow> state \<Rightarrow> state" where
  "addSection now st =
     (case editedTemplate st of
        None \<Rightarrow> st
      | Some edited \<Rightarrow>
          if \<not> tpl_is_custom edited then st
          else
            (case alloc (newSection now (length (tpl_sections edited))) (heap st) of
               (a, h) \<Rightarrow>
                 show_toast (''Section ajout'' @ e_acute @ ''e'')
                   (''Une nouvelle section a '' @ e_acute @ ''t'' @ e_acute @ '' ajout'' @ e_acute @ ''e au template.'') False
                   (st\<lparr>editedTemplate :=
                         Some (edited\<lparr>tpl_sections := spread_array (tpl_sections edited) @ [Obj a]\<rparr>),
                       heap := h\<rparr>)))"

text \<open>
  The \<open>forEach\<close> of \<open>deleteSection\<close> assigns \<open>idx + 1\<close> to the \<open>order\<close> of each section
  object in place. It skips a hole and raises at \<open>undefined\<close> or \<open>null\<close>; the
  assignments made before the exception stay.
\<close>

fun renumber :: "nat \<Rightarrow> slot list \<Rightarrow> heap \<Rightarrow> js_error \<times> heap + heap" where
  "renumber idx [] h = Inr h"
| "renumber idx (Obj a # xs) h =
     renumber (Suc idx) xs (h[a := (h ! a)\<lparr>sec_order := JNum (int idx + 1)\<rparr>])"
| "renumber idx (Hole # xs) h = renumber (Suc idx) xs h"
| "renumber idx (Undef # xs) h = Inl (cannot_set ''undefined'' ''order'', h)"
| "renumber idx (Null # xs) h = Inl (cannot_set ''null'' ''order'', h)"

text \<open>
  \<open>deleteSection\<close> has no \<open>try\<close>: an exception leaves the handler (\<open>Inl\<close>, with the
  state at that moment); otherwise the handler returns (\<open>Inr\<close>).
\<close>

definition deleteSection_remove :: "nat \<Rightarrow> slot Template \<Rightarrow> state \<Rightarrow> js_error \<times> state + state" where
  "deleteSection_remove index edited st =
     (let updatedSections = splice1 (spread_array (tpl_sections edited)) index in
      case renumber 0 updatedSections (heap st) of
        Inl (err, h) \<Rightarrow> Inl (err, st\<lparr>heap := h\<rparr>)
      | Inr h \<Rightarrow>
          Inr (show_toast (''Section supprim'' @ e_acute @ ''e'')
                 (''La section a '' @ e_acute @ ''t'' @ e_acute @ '' supprim'' @ e_acute @ ''e du template.'') False
                 (st\<lparr>editedTemplate := Some (edited\<lparr>tpl_sections := updatedSections\<rparr>),
                     heap := h\<rparr>)))"

definition deleteSection :: "nat \<Rightarrow> state \<Rightarrow> js_error \<times> state + state" where
  "deleteSection index st =
     (case editedTemplate st of
        None \<Rightarrow> Inr st
      | Some edited \<Rightarrow>
          if \<not> tpl_is_custom edited then Inr st
          else
            (case array_get (tpl_sections edited) index of
               Obj a \<Rightarrow>
                 if truthy (sec_required (heap st ! a)) then
                   Inr (show_toast ''Action impossible''
                          ''Impossible de supprimer une section obligatoire.'' True st)
                 else deleteSection_remove index edited st
             | Hole \<Rightarrow> Inl (cannot_read ''undefined'' ''required'', st)
             | Undef \<Rightarrow> Inl (cannot_read ''undefined'' ''required'', st)
             | Null \<Rightarrow> Inl (cannot_read ''null'' ''required'', st)))"

subsection \<open>handleSave\<close>

text \<open>The object that the validation pass of \<open>handleSave\<close> builds for one section.\<close>

definition validate_section :: "Section \<Rightarrow> Section" where
  "validate_section s =
     \<lparr>sec_id = sec_id s,
      sec_name = js_or (sec_name s) (JStr ''Section sans nom''),
      sec_description = js_or (sec_description s) (JStr ''Description de la section''),
      sec_required = (if sec_required s \<noteq> JUndefined then sec_required s else JBool False),
      sec_default_enabled =
        (if sec_default_enabled s \<noteq> JUndefined then sec_default_enabled s else JBool True),
      sec_order = (if sec_order s \<noteq> JUndefined then sec_order s else JNum 0),
      sec_rag_query_template = js_or (sec_rag_query_template s) (JStr default_rag_query_template),
      sec_prompt_template = js_or (sec_prompt_template s) (JStr default_prompt_template)\<rparr>"

text \<open>
  \<open>editedTemplate.sections.map(section => ...)\<close>, already in the form that
  \<open>JSON.stringify\<close> gives it in the request body: \<open>map\<close> keeps a hole (written
  \<open>null\<close>), and the callback raises at \<open>undefined\<close> or \<open>null\<close>, where \<open>section.id\<close>
  cannot be read.
\<close>

fun validatedSections :: "heap \<Rightarrow> slot list \<Rightarrow> js_error + Section option list" where
  "validatedSections h [] = Inr []"
| "validatedSections h (Obj a # xs) =
     (case validatedSections h xs of
        Inl err \<Rightarrow> Inl err
      | Inr ys \<Rightarrow> Inr (Some (validate_section (h ! a)) # ys))"
| "validatedSections h (Hole # xs) =
     (case validatedSections h xs of
        Inl err \<Rightarrow> Inl err
      | Inr ys \<Rightarrow> Inr (None # ys))"
| "validatedSections h (Undef # xs) = Inl (cannot_read ''undefined'' ''id'')"
| "validatedSections h (Null # xs) = Inl (cannot_read ''null'' ''id'')"

text \<open>\<open>!editedTemplate.id || !editedTemplate.id.startsWith('custom_')\<close>.\<close>

definition isNewTemplate :: "string option \<Rightarrow> bool" where
  "isNewTemplate i =
     (case i of None \<Rightarrow> True | Some s \<Rightarrow> s = [] \<or> \<not> startsWith s ''custom_'')"

text \<open>\<open>savedTemplate.id && savedTemplate.id.startsWith('custom_')\<close>, as a truth value.\<close>

definition isCustomTemplate :: "string option \<Rightarrow> bool" where
  "isCustomTemplate i =
     (case i of None \<Rightarrow> False | Some s \<Rightarrow> s \<noteq> [] \<and> startsWith s ''custom_'')"

text \<open>The success message of \<open>handleSave\<close>.\<close>

definition saved_message :: string where
  "saved_message = ''Template sauvegard'' @ e_acute @ '' avec succ'' @ e_grave @ ''s''"

definition handleSave_catch :: "js_error \<Rightarrow> state \<Rightarrow> state" where
  "handleSave_catch err st =
     show_toast ''Erreur''
       (''Impossible de sauvegarder le template. Veuillez r'' @ e_acute @ ''essayer.'') True
       (st\<lparr>error := Some (''Erreur lors de la sauvegarde: '' @ message err)\<rparr>)"

definition handleSave_saved ::
  "Section option Template \<Rightarrow> Section option Template list fetch_result \<Rightarrow> state \<Rightarrow> state" where
  "handleSave_saved json list_reply st =
     (case parse_template json (heap st) of
        (parsed, h1) \<Rightarrow>
          let savedTemplate = parsed\<lparr>tpl_is_custom := isCustomTemplate (tpl_id parsed)\<rparr>;
              st1 = fetchTemplates list_reply (st\<lparr>heap := h1\<rparr>)
          in
          (case deep_copy_template savedTemplate (heap st1) of
             (copy, h2) \<Rightarrow>
               show_toast (''Succ'' @ e_grave @ ''s'')
                 (''Le template a '' @ e_acute @ ''t'' @ e_acute @ '' sauvegard'' @ e_acute @ '' avec succ'' @ e_grave @ ''s.'') False
                 (st1\<lparr>activeTemplate := Some savedTemplate, editedTemplate := Some copy,
                      heap := h2,
                      success := Some saved_message\<rparr>)))"

definition handleSave_try ::
  "slot Template \<Rightarrow> Section option Template fetch_result \<Rightarrow>
   Section option Template list fetch_result \<Rightarrow> state \<Rightarrow> state" where
  "handleSave_try edited save_reply list_reply st =
     (case validatedSections (heap st) (tpl_sections edited) of
        Inl err \<Rightarrow> handleSave_catch err st
      | Inr validated \<Rightarrow>
          let url = (if \<not> isNewTemplate (tpl_id edited)
                     then backend @ ''/'' @ id_text (tpl_id edited) else backend);
              method = (if \<not> isNewTemplate (tpl_id edited) then PUT else POST);
              st1 = send method url
                      (Some \<lparr>body_name = tpl_name edited,
                             body_description = tpl_description edited,
                             body_sections = validated,
                             body_is_default = tpl_is_default edited\<rparr>) st
          in
          (case save_reply of
             Rejected err \<Rightarrow> handleSave_catch err st1
           | Responded response \<Rightarrow>
               if \<not> ok response then
                 handleSave_catch
                   (Error (''Erreur lors de la sauvegarde: '' @ string_of_nat (status response)
                           @ '' - '' @
                           (case body_text response of
                              None \<Rightarrow> ''Pas de d'' @ e_acute @ ''tails disponibles''
                            | Some errorText \<Rightarrow> errorText))) st1
               else
                 (case body_json response of
                    Inl err \<Rightarrow> handleSave_catch err st1
                  | Inr json \<Rightarrow> handleSave_saved json list_reply st1)))"

definition handleSave ::
  "Section option Template fetch_result \<Rightarrow> Section option Template list fetch_result \<Rightarrow>
   state \<Rightarrow> state" where
  "handleSave save_reply list_reply st =
     (case editedTemplate st of
        None \<Rightarrow> st
      | Some edited \<Rightarrow>
          (handleSave_try edited save_reply list_reply
             (st\<lparr>isSaving := True, error := None, success := None\<rparr>))
          \<lparr>isSaving := False\<rparr>)"

subsection \<open>handleDelete\<close>

definition handleDelete_catch :: "js_error \<Rightarrow> state \<Rightarrow> state" where
  "handleDelete_catch err st =
     show_toast ''Erreur''
       (''Impossible de supprimer le template. Veuillez r'' @ e_acute @ ''essayer.'') True
       (st\<lparr>error := Some (''Erreur lors de la suppression: '' @ message err)\<rparr>)"

definition handleDelete_try ::
  "slot Template \<Rightarrow> unit fetch_result \<Rightarrow> Section option Template list fetch_result \<Rightarrow>
   state \<Rightarrow> state" where
  "handleDelete_try active delete_reply list_reply st =
     (let st1 = send DELETE (backend @ ''/'' @ id_text (tpl_id active)) None st in
      case delete_reply of
        Rejected err \<Rightarrow> handleDelete_catch err st1
      | Responded response \<Rightarrow>
          if \<not> ok response then
            handleDelete_catch
              (Error (''Erreur lors de la suppression: '' @ string_of_nat (status response))) st1
          else
            show_toast (''Succ'' @ e_grave @ ''s'')
              (''Le template a '' @ e_acute @ ''t'' @ e_acute @ '' supprim'' @ e_acute @ '' avec succ'' @ e_grave @ ''s.'') False
              ((fetchTemplates list_reply st1)
                 \<lparr>activeTemplate := None, editedTemplate := None,
                  success := Some (''Template supprim'' @ e_acute @ '' avec succ'' @ e_grave @ ''s'')\<rparr>))"

definition handleDelete ::
  "unit fetch_result \<Rightarrow> Section option Template list fetch_result \<Rightarrow> state \<Rightarrow> state" where
  "handleDelete delete_reply list_reply st =
     (case activeTemplate st of
        None \<Rightarrow> st
      | Some active \<Rightarrow>
          if \<not> tpl_is_custom active then st
          else
            (handleDelete_try active delete_reply list_reply
               (st\<lparr>isDeleting := True, error := None, success := None\<rparr>))
            \<lparr>isDeleting := False\<rparr>)"

subsection \<open>handleCreateTemplate and the duplicate button\<close>

text \<open>\<open>templates.find(t => t.id === baseTemplateId) || templates[0]\<close>; \<open>None\<close> is \<open>undefined\<close>.\<close>

definition baseTemplate :: "state \<Rightarrow> slot Template option" where
  "baseTemplate st =
     (case find (\<lambda>t. tpl_id t = Some (baseTemplateId st)) (templates st) of
        Some t \<Rightarrow> Some t
      | None \<Rightarrow> (case templates st of [] \<Rightarrow> None | t # _ \<Rightarrow> Some t))"

definition handleCreateTemplate_catch :: "js_error \<Rightarrow> state \<Rightarrow> state" where
  "handleCreateTemplate_catch err st =
     show_toast ''Erreur''
       (''Impossible de cr'' @ e_acute @ ''er le template. Veuillez r'' @ e_acute @ ''essayer.'') True
       (st\<lparr>error := Some (''Erreur lors de la cr'' @ e_acute @ ''ation du template: '' @ message err)\<rparr>)"

definition handleCreateTemplate :: "state \<Rightarrow> state" where
  "handleCreateTemplate st =
     (if trim (newTemplateName st) = [] then
        show_toast ''Erreur'' ''Le nom du template est requis.'' True st
      else
        (case baseTemplate st of
           None \<Rightarrow>
             handleCreateTemplate_catch
               (if newTemplateDescription st \<noteq> [] then cannot_read ''undefined'' ''sections''
                else cannot_read ''undefined'' ''name'') st
         | Some base \<Rightarrow>
             (case deep_copy_sections (tpl_sections base) (heap st) of
                (copied, h) \<Rightarrow>
                  let templateWithCustomProps =
                        \<lparr>tpl_id = Some ''new_template'',
                         tpl_name = newTemplateName st,
                         tpl_description =
                           (if newTemplateDescription st \<noteq> [] then newTemplateDescription st
                            else ''Template personnalis'' @ e_acute @ '' bas'' @ e_acute @ '' sur '' @ tpl_name base),
                         tpl_sections = copied,
                         tpl_is_default = False,
                         tpl_is_custom = True\<rparr>
                  in st\<lparr>showCreateDialog := False,
                        activeTemplate := Some templateWithCustomProps,
                        editedTemplate := Some templateWithCustomProps,
                        newTemplateName := [],
                        newTemplateDescription := [],
                        baseTemplateId := [],
                        heap := h\<rparr>)))"

text \<open>
  The \<open>onClick\<close> of the button "Dupliquer ce template". The button is rendered only
  while \<open>editedTemplate\<close> is set and not custom; the handler itself tests nothing, and
  with no edit buffer the assignment \<open>copy.id = ...\<close> raises.
\<close>

definition duplicateTemplate :: "state \<Rightarrow> js_error \<times> state + state" where
  "duplicateTemplate st =
     (case editedTemplate st of
        None \<Rightarrow> Inl (cannot_set ''null'' ''id'', st)
      | Some edited \<Rightarrow>
          (case deep_copy_template edited (heap st) of
             (parsed, h) \<Rightarrow>
               let copy = parsed\<lparr>tpl_id := Some ''new_template'', tpl_is_custom := True,
                                 tpl_name := ''Copie de '' @ tpl_name parsed\<rparr>
               in Inr (st\<lparr>activeTemplate := Some copy, editedTemplate := Some copy, heap := h\<rparr>)))"

section \<open>The proxy handlers\<close>

text \<open>
  A route handler answers with a status and a JSON body: the data of the backend, or the
  object \<open>{error, details, stack}\<close>. What the runtime and axios do is an input: the
  result of \<open>request.json()\<close>, and the function \<open>axios_get\<close> or \<open>axios_post\<close>, which
  gives \<open>response.data\<close> or the exception thrown (axios throws on a network failure and
  on a status outside 2xx). An exception is an object with a message and a stack.
\<close>

record thrown =
  thrown_message :: string
  thrown_stack :: string

datatype 'j proxy_body = Data 'j | Failure string string string

record 'j reply =
  reply_status :: nat
  reply_body :: "'j proxy_body"

text \<open>The \<open>details\<close> of a reply, when its body is the error object.\<close>

fun details :: "'j reply \<Rightarrow> string option" where
  "details r = (case reply_body r of Data d \<Rightarrow> None | Failure e d s \<Rightarrow> Some d)"

text \<open>\<open>process.env.NEXT_PUBLIC_API_URL || fallback\<close>.\<close>

definition API_URL :: "string option \<Rightarrow> string \<Rightarrow> string" where
  "API_URL env fallback =
     (case env of None \<Rightarrow> fallback | Some u \<Rightarrow> if u = [] then fallback else u)"

definition proxy_failure :: "string \<Rightarrow> thrown \<Rightarrow> 'j reply" where
  "proxy_failure msg err =
     \<lparr>reply_status = 500, reply_body = Failure msg (thrown_message err) (thrown_stack err)\<rparr>"

definition proxy_success :: "'j \<Rightarrow> 'j reply" where
  "proxy_success d = \<lparr>reply_status = 200, reply_body = Data d\<rparr>"

definition proxy_post ::
  "string \<Rightarrow> string \<Rightarrow> (string \<Rightarrow> 'j \<Rightarrow> thrown + 'j) \<Rightarrow> thrown + 'j \<Rightarrow> 'j reply" where
  "proxy_post url msg axios_post request_json =
     (case request_json of
        Inl err \<Rightarrow> proxy_failure msg err
      | Inr d \<Rightarrow>
          (case axios_post url d of
             Inl err \<Rightarrow> proxy_failure msg err
           | Inr response_data \<Rightarrow> proxy_success response_data))"

text \<open>The route of the template list: \<open>GET\<close> and \<open>POST\<close>.\<close>

definition template_GET :: "string option \<Rightarrow> (string \<Rightarrow> thrown + 'j) \<Rightarrow> 'j reply" where
  "template_GET env axios_get =
     (case axios_get (API_URL env ''http://127.0.0.1:8050'' @ ''/templates'') of
        Inl err \<Rightarrow>
          proxy_failure (''Erreur lors de la r'' @ e_acute @ ''cup'' @ e_acute @ ''ration des templates'') err
      | Inr response_data \<Rightarrow> proxy_success response_data)"

definition template_POST ::
  "string option \<Rightarrow> (string \<Rightarrow> 'j \<Rightarrow> thrown + 'j) \<Rightarrow> thrown + 'j \<Rightarrow> 'j reply" where
  "template_POST env =
     proxy_post (API_URL env ''http://127.0.0.1:8050'' @ ''/templates/generate'')
       (''Erreur lors de la g'' @ e_acute @ ''n'' @ e_acute @ ''ration avec template'')"

text \<open>The route of the product description.\<close>

definition generate_POST ::
  "string option \<Rightarrow> (string \<Rightarrow> 'j \<Rightarrow> thrown + 'j) \<Rightarrow> thrown + 'j \<Rightarrow> 'j reply" where
  "generate_POST env =
     proxy_post (API_URL env ''http://127.0.0.1:8050'' @ ''/generate-product-description'')
       (''Erreur lors de la g'' @ e_acute @ ''n'' @ e_acute @ ''ration de la description'')"

text \<open>The two routes of the generation with retrieval; they differ in the fallback address.\<close>

definition rag_POST ::
  "string option \<Rightarrow> (string \<Rightarrow> 'j \<Rightarrow> thrown + 'j) \<Rightarrow> thrown + 'j \<Rightarrow> 'j reply" where
  "rag_POST env =
     proxy_post (API_URL env ''http://127.0.0.1:8050'' @ ''/generate-with-rag'')
       (''Erreur lors de la g'' @ e_acute @ ''n'' @ e_acute @ ''ration avec RAG'')"

definition rag_backend_POST ::
  "string option \<Rightarrow> (string \<Rightarrow> 'j \<Rightarrow> thrown + 'j) \<Rightarrow> thrown + 'j \<Rightarrow> 'j reply" where
  "rag_backend_POST env =
     proxy_post (API_URL env ''http://rfp-backend:8050'' @ ''/generate-with-rag'')
       (''Erreur lors de la g'' @ e_acute @ ''n'' @ e_acute @ ''ration avec RAG'')"

section \<open>Well-typed arrays and what is observed of a state\<close>

text \<open>
  The declared type of \<open>sections\<close> is \<open>Section[]\<close>: every slot refers to a section
  object. In a state that the program has built, the object exists in the store, and
  an array does not hold the same object twice.
\<close>

fun is_obj :: "slot \<Rightarrow> bool" where
  "is_obj (Obj a) = True"
| "is_obj Hole = False"
| "is_obj Undef = False"
| "is_obj Null = False"

definition is_section_array :: "slot list \<Rightarrow> bool" where
  "is_section_array xs = list_all is_obj xs"

fun allocated_slot :: "heap \<Rightarrow> slot \<Rightarrow> bool" where
  "allocated_slot h (Obj a) = (a < length h)"
| "allocated_slot h Hole = True"
| "allocated_slot h Undef = True"
| "allocated_slot h Null = True"

definition allocated :: "heap \<Rightarrow> slot list \<Rightarrow> bool" where
  "allocated h xs = list_all (allocated_slot h) xs"

definition wf_sections :: "heap \<Rightarrow> slot list \<Rightarrow> bool" where
  "wf_sections h xs = (is_section_array xs \<and> allocated h xs \<and> distinct xs)"

text \<open>The \<open>order\<close> values of the sections of an array, and those of the edit buffer.\<close>

definition section_orders :: "heap \<Rightarrow> slot list \<Rightarrow> jsval list" where
  "section_orders h xs = map (\<lambda>x. sec_order (spread_object h x)) xs"

definition edited_orders :: "state \<Rightarrow> jsval list" where
  "edited_orders st =
     (case editedTemplate st of
        None \<Rightarrow> []
      | Some edited \<Rightarrow> section_orders (heap st) (tpl_sections edited))"

text \<open>The sequence \<open>1..N\<close>.\<close>

definition contiguous :: "jsval list \<Rightarrow> bool" where
  "contiguous os = (os = map (\<lambda>k. JNum (int k)) [1..<Suc (length os)])"

text \<open>The toast with which \<open>deleteSection\<close> refuses to remove a required section.\<close>

definition rejection_toast :: toast where
  "rejection_toast =
     \<lparr>toast_title = ''Action impossible'',
      toast_description = ''Impossible de supprimer une section obligatoire.'',
      toast_destructive = True\<rparr>"

section \<open>Example states\<close>

text \<open>
  A store with six section objects: two of a default template of the list, two of a
  custom template of the list, and two of the edit buffer.
\<close>

definition sec_intro :: Section where
  "sec_intro =
     \<lparr>sec_id = JStr ''intro'', sec_name = JStr ''Introduction'',
      sec_description = JStr ''Presentation du produit'',
      sec_required = JBool True, sec_default_enabled = JBool True, sec_order = JNum 1,
      sec_rag_query_template = JStr ''presentation de {product_name}'',
      sec_prompt_template = JStr ''Presenter {product_name}''\<rparr>"

definition sec_usage :: Section where
  "sec_usage =
     \<lparr>sec_id = JStr ''usage'', sec_name = JStr ''Utilisation'',
      sec_description = JStr ''Conseils'',
      sec_required = JBool False, sec_default_enabled = JBool True, sec_order = JNum 2,
      sec_rag_query_template = JStr ''utilisation de {product_name}'',
      sec_prompt_template = JStr ''Expliquer {product_name}''\<rparr>"

definition tpl_default_7 :: "slot Template" where
  "tpl_default_7 =
     \<lparr>tpl_id = Some ''default_7'', tpl_name = ''Fiche standard'',
      tpl_description = ''Template standard'', tpl_sections = [Obj 0, Obj 1],
      tpl_is_default = True, tpl_is_custom = False\<rparr>"

definition tpl_custom_42 :: "slot Template" where
  "tpl_custom_42 =
     \<lparr>tpl_id = Some ''custom_42'', tpl_name = ''Fiche maison'',
      tpl_description = ''Template personnel'', tpl_sections = [Obj 2, Obj 3],
      tpl_is_default = False, tpl_is_custom = True\<rparr>"

definition st_empty :: state where
  "st_empty =
     \<lparr>templates = [], activeTemplate = None, editedTemplate = None,
      isLoading = True, isSaving = False, isDeleting = False,
      error = None, success = None, showCreateDialog = False,
      newTemplateName = [], newTemplateDescription = [], baseTemplateId = [],
      heap = [], toasts = [], requests = []\<rparr>"

definition st_listed :: state where
  "st_listed =
     st_empty\<lparr>templates := [tpl_default_7, tpl_custom_42], isLoading := False,
              heap := [sec_intro, sec_usage, sec_intro, sec_usage, sec_intro, sec_usage]\<rparr>"

definition st_custom :: state where
  "st_custom =
     st_listed\<lparr>activeTemplate := Some tpl_custom_42,
               editedTemplate := Some (tpl_custom_42\<lparr>tpl_sections := [Obj 4, Obj 5]\<rparr>)\<rparr>"

definition st_default :: state where
  "st_default =
     st_listed\<lparr>activeTemplate := Some tpl_default_7,
               editedTemplate := Some (tpl_default_7\<lparr>tpl_sections := [Obj 4, Obj 5]\<rparr>)\<rparr>"

text \<open>A reply of the backend with status 200 and a JSON body, and one with a status only.\<close>

definition reply_json :: "'a \<Rightarrow> 'a fetch_result" where
  "reply_json d = Responded \<lparr>status = 200, body_text = None, body_json = Inr d\<rparr>"

definition reply_status_only :: "nat \<Rightarrow> 'a fetch_result" where
  "reply_status_only n =
     Responded \<lparr>status = n, body_text = Some [], body_json = Inl (SyntaxError ''Unexpected end of JSON input'')\<rparr>"

definition json_saved :: "Section option Template" where
  "json_saved =
     \<lparr>tpl_id = Some ''custom_43'', tpl_name = ''Fiche maison'',
      tpl_description = ''Template personnel'', tpl_sections = [Some sec_intro],
      tpl_is_default = False, tpl_is_custom = False\<rparr>"

text \<open>
  The state with the default template in the edit buffer and a name typed into the
  dialog, and the JSON document of the default template.
\<close>

definition st_dialog :: state where
  "st_dialog = st_default\<lparr>showCreateDialog := True, newTemplateName := ''Ma fiche''\<rparr>"

definition json_default_7 :: "Section option Template" where
  "json_default_7 =
     \<lparr>tpl_id = Some ''default_7'', tpl_name = ''Fiche standard'',
      tpl_description = ''Template standard'', tpl_sections = [Some sec_intro, Some sec_usage],
      tpl_is_default = True, tpl_is_custom = False\<rparr>"

text \<open>The custom edit buffer with a second section that has an id and nothing else.\<close>

definition st_incomplete :: state where
  "st_incomplete =
     st_custom\<lparr>heap := [sec_intro, sec_usage, sec_intro, sec_usage, sec_intro,
                         empty_object\<lparr>sec_id := JStr ''extra''\<rparr>]\<rparr>"

text \<open>
  The custom edit buffer after the order of its second section has been set to 5 in the
  order field of the form.
\<close>

definition st_reordered :: state where
  "st_reordered = handleSectionChange 1 F_order (JNum 5) st_custom"

text \<open>
  Three clients: one whose exception has an empty message, one whose connection is
  refused, and one that returns what it is sent.
\<close>

definition axios_silent :: "string \<Rightarrow> unit \<Rightarrow> thrown + unit" where
  "axios_silent url d = Inl \<lparr>thrown_message = [], thrown_stack = ''AggregateError''\<rparr>"

definition axios_refused :: "string \<Rightarrow> unit \<Rightarrow> thrown + unit" where
  "axios_refused url d =
     Inl \<lparr>thrown_message = ''connect ECONNREFUSED 127.0.0.1:8050'',
          thrown_stack = ''AxiosError: connect ECONNREFUSED 127.0.0.1:8050''\<rparr>"

definition axios_echo :: "string \<Rightarrow> unit \<Rightarrow> thrown + unit" where
  "axios_echo url d = Inr d"

section \<open>Auxiliary notions for the proofs\<close>

text \<open>The section objects that \<open>JSON.parse\<close> creates for a JSON array, in order.\<close>

fun json_objects :: "Section option list \<Rightarrow> Section list" where
  "json_objects [] = []"
| "json_objects (None # js) = json_objects js"
| "json_objects (Some s # js) = s # json_objects js"

section \<open>Basic facts about the handlers\<close>

lemma show_toast_fields [simp]:
  "templates (show_toast a b c st) = templates st"
  "activeTemplate (show_toast a b c st) = activeTemplate st"
  "editedTemplate (show_toast a b c st) = editedTemplate st"
  "isLoading (show_toast a b c st) = isLoading st"
  "isSaving (show_toast a b c st) = isSaving st"
  "isDeleting (show_toast a b c st) = isDeleting st"
  "error (show_toast a b c st) = error st"
  "success (show_toast a b c st) = success st"
  "showCreateDialog (show_toast a b c st) = showCreateDialog st"
  "newTemplateName (show_toast a b c st) = newTemplateName st"
  "newTemplateDescription (show_toast a b c st) = newTemplateDescription st"
  "baseTemplateId (show_toast a b c st) = baseTemplateId st"
  "heap (show_toast a b c st) = heap st"
  "requests (show_toast a b c st) = requests st"
  "toasts (show_toast a b c st) =
     toasts st @ [\<lparr>toast_title = a, toast_description = b, toast_destructive = c\<rparr>]"
  by (simp_all add: show_toast_def)

lemma send_fields [simp]:
  "templates (send m u b st) = templates st"
  "activeTemplate (send m u b st) = activeTemplate st"
  "editedTemplate (send m u b st) = editedTemplate st"
  "isLoading (send m u b st) = isLoading st"
  "isSaving (send m u b st) = isSaving st"
  "isDeleting (send m u b st) = isDeleting st"
  "error (send m u b st) = error st"
  "success (send m u b st) = success st"
  "showCreateDialog (send m u b st) = showCreateDialog st"
  "newTemplateName (send m u b st) = newTemplateName st"
  "newTemplateDescription (send m u b st) = newTemplateDescription st"
  "baseTemplateId (send m u b st) = baseTemplateId st"
  "heap (send m u b st) = heap st"
  "toasts (send m u b st) = toasts st"
  "requests (send m u b st) =
     requests st @ [\<lparr>req_method = m, req_url = u, req_body = b\<rparr>]"
  by (simp_all add: send_def)

lemma fetchTemplates_catch_fields [simp]:
  "templates (fetchTemplates_catch e st) = templates st"
  "activeTemplate (fetchTemplates_catch e st) = activeTemplate st"
  "editedTemplate (fetchTemplates_catch e st) = editedTemplate st"
  "success (fetchTemplates_catch e st) = success st"
  "heap (fetchTemplates_catch e st) = heap st"
  "requests (fetchTemplates_catch e st) = requests st"
  "isSaving (fetchTemplates_catch e st) = isSaving st"
  "isDeleting (fetchTemplates_catch e st) = isDeleting st"
  by (simp_all add: fetchTemplates_catch_def)

lemma fetchTemplates_try_requests [simp]:
  "requests (fetchTemplates_try reply st) = requests st"
  by (simp add: fetchTemplates_try_def Let_def split: fetch_result.split sum.split prod.split list.split)

lemma fetchTemplates_requests [simp]:
  "requests (fetchTemplates reply st) = requests st @ [list_request]"
  by (simp add: fetchTemplates_def list_request_def)

lemma handleSave_catch_requests [simp]:
  "requests (handleSave_catch e st) = requests st"
  by (simp add: handleSave_catch_def)

lemma handleSave_saved_requests [simp]:
  "requests (handleSave_saved j r st) = requests st @ [list_request]"
  by (simp add: handleSave_saved_def Let_def split: prod.split)

lemma validatedSections_section_array:
  "is_section_array xs \<Longrightarrow>
   validatedSections h xs = Inr (map (\<lambda>x. Some (validate_section (spread_object h x))) xs)"
proof (induction xs)
  case Nil
  show ?case by simp
next
  case (Cons x xs)
  then show ?case by (cases x) (simp_all add: is_section_array_def)
qed

subsection \<open>The store: parsing, copying, writing\<close>

lemma parse_sections_heap:
  "snd (parse_sections js h) = h @ json_objects js"
  by (induction js h rule: parse_sections.induct) (simp_all add: alloc_def split_beta)

lemma parse_sections_length [simp]:
  "length (fst (parse_sections js h)) = length js"
  by (induction js h rule: parse_sections.induct) (simp_all add: alloc_def split_beta)

lemma parse_sections_fresh:
  "Obj a \<in> set (fst (parse_sections js h)) \<Longrightarrow>
   length h \<le> a \<and> a < length (snd (parse_sections js h))"
proof (induction js h rule: parse_sections.induct)
  case (1 h)
  then show ?case by simp
next
  case (2 js h)
  then show ?case by (auto simp: split_beta)
next
  case (3 s js h)
  then show ?case
    by (auto simp: alloc_def parse_sections_heap split_beta)
qed

lemma parse_sections_distinct:
  "distinct (filter is_obj (fst (parse_sections js h)))"
proof (induction js h rule: parse_sections.induct)
  case (1 h)
  then show ?case by simp
next
  case (2 js h)
  then show ?case by (auto simp: split_beta)
next
  case (3 s js h)
  have "Obj (length h) \<notin> set (fst (parse_sections js (h @ [s])))"
    using parse_sections_fresh[of "length h" js "h @ [s]"] by auto
  with 3 show ?case
    by (auto simp: alloc_def split_beta)
qed

lemma stringify_slot_append:
  "allocated_slot h x \<Longrightarrow> stringify_slot (h @ ext) x = stringify_slot h x"
  by (cases x) (simp_all add: nth_append)

lemma stringify_sections_append:
  "allocated h xs \<Longrightarrow> stringify_sections (h @ ext) xs = stringify_sections h xs"
  by (induction xs) (simp_all add: stringify_sections_def allocated_def stringify_slot_append)

lemma parse_sections_allocated:
  "allocated (snd (parse_sections js h)) (fst (parse_sections js h))"
  unfolding allocated_def list_all_iff
proof
  fix x assume x: "x \<in> set (fst (parse_sections js h))"
  show "allocated_slot (snd (parse_sections js h)) x"
  proof (cases x)
    case (Obj a)
    with x parse_sections_fresh[of a js h] show ?thesis by simp
  qed simp_all
qed

lemma parse_sections_roundtrip:
  "stringify_sections (snd (parse_sections js h)) (fst (parse_sections js h)) = js"
proof (induction js h rule: parse_sections.induct)
  case (1 h)
  then show ?case by (simp add: stringify_sections_def)
next
  case (2 js h)
  then show ?case by (simp add: stringify_sections_def split_beta)
next
  case (3 s js h)
  have "snd (parse_sections js (h @ [s])) ! length h = s"
    by (simp add: parse_sections_heap nth_append)
  with 3 show ?case
    by (simp add: stringify_sections_def alloc_def split_beta)
qed

lemma deep_copy_sections_same:
  "stringify_sections (snd (deep_copy_sections xs h)) (fst (deep_copy_sections xs h)) =
   stringify_sections h xs"
  by (simp add: deep_copy_sections_def parse_sections_roundtrip)

lemma stringify_parse_template:
  "stringify_template (snd (parse_template j h)) (fst (parse_template j h)) = j"
  by (simp add: parse_template_def stringify_template_def split_beta parse_sections_roundtrip)

lemma parse_template_heap:
  "snd (parse_template j h) = h @ json_objects (tpl_sections j)"
  by (simp add: parse_template_def split_beta parse_sections_heap)

lemma parse_template_allocated:
  "allocated (snd (parse_template j h)) (tpl_sections (fst (parse_template j h)))"
  by (simp add: parse_template_def split_beta parse_sections_allocated)

lemma parse_template_fresh:
  "Obj a \<in> set (tpl_sections (fst (parse_template j h))) \<Longrightarrow>
   length h \<le> a \<and> a < length (snd (parse_template j h))"
  using parse_sections_fresh[of a "tpl_sections j" h]
  by (simp add: parse_template_def split_beta)

lemma stringify_template_append:
  "allocated h (tpl_sections t) \<Longrightarrow> stringify_template (h @ ext) t = stringify_template h t"
  by (simp add: stringify_template_def stringify_sections_append)

lemma allocated_append:
  "allocated h xs \<Longrightarrow> allocated (h @ ext) xs"
  unfolding allocated_def list_all_iff
proof
  fix x assume a: "\<forall>x\<in>set xs. allocated_slot h x" and x: "x \<in> set xs"
  then show "allocated_slot (h @ ext) x" by (cases x) auto
qed

lemma parse_templates_heap:
  "\<exists>ext. snd (parse_templates js h) = h @ ext"
proof (induction js arbitrary: h)
  case Nil
  show ?case by simp
next
  case (Cons j js)
  from Cons[of "snd (parse_template j h)"] show ?case
    by (auto simp: split_beta parse_template_heap)
qed

lemma parse_templates_length [simp]:
  "length (fst (parse_templates js h)) = length js"
  by (induction js arbitrary: h) (simp_all add: split_beta)

lemma parse_templates_allocated:
  "t \<in> set (fst (parse_templates js h)) \<Longrightarrow>
   allocated (snd (parse_templates js h)) (tpl_sections t)"
proof (induction js arbitrary: h)
  case Nil
  then show ?case by simp
next
  case (Cons j js)
  obtain ext where ext: "snd (parse_templates js (snd (parse_template j h))) = snd (parse_template j h) @ ext"
    using parse_templates_heap by blast
  from Cons.prems have
    "t = fst (parse_template j h) \<or> t \<in> set (fst (parse_templates js (snd (parse_template j h))))"
    by (simp add: split_beta)
  then show ?case
  proof
    assume "t = fst (parse_template j h)"
    then show ?thesis
      using allocated_append[OF parse_template_allocated[of j h], of ext] ext
      by (simp add: split_beta)
  next
    assume "t \<in> set (fst (parse_templates js (snd (parse_template j h))))"
    from Cons.IH[OF this] show ?thesis by (simp add: split_beta)
  qed
qed

lemma parse_templates_roundtrip:
  "map (stringify_template (snd (parse_templates js h))) (fst (parse_templates js h)) = js"
proof (induction js arbitrary: h)
  case Nil
  show ?case by simp
next
  case (Cons j js)
  obtain ext where ext: "snd (parse_templates js (snd (parse_template j h))) = snd (parse_template j h) @ ext"
    using parse_templates_heap by blast
  have "stringify_template (snd (parse_template j h) @ ext) (fst (parse_template j h)) = j"
    using stringify_template_append[OF parse_template_allocated[of j h], of ext]
    by (simp add: stringify_parse_template)
  with Cons[of "snd (parse_template j h)"] ext show ?case
    by (simp add: split_beta)
qed

lemma deep_copy_template_same:
  "stringify_template (snd (deep_copy_template t h)) (fst (deep_copy_template t h)) =
   stringify_template h t"
  by (simp add: deep_copy_template_def stringify_parse_template)

lemma deep_copy_template_heap:
  "\<exists>ext. snd (deep_copy_template t h) = h @ ext"
  by (simp add: deep_copy_template_def parse_template_heap)

lemma deep_copy_template_fresh:
  "Obj a \<in> set (tpl_sections (fst (deep_copy_template t h))) \<Longrightarrow>
   length h \<le> a \<and> a < length (snd (deep_copy_template t h))"
  using parse_template_fresh[of a "stringify_template h t" h]
  by (simp add: deep_copy_template_def)

lemma deep_copy_template_fields [simp]:
  "tpl_id (fst (deep_copy_template t h)) = tpl_id t"
  "tpl_name (fst (deep_copy_template t h)) = tpl_name t"
  "tpl_description (fst (deep_copy_template t h)) = tpl_description t"
  "tpl_is_default (fst (deep_copy_template t h)) = tpl_is_default t"
  "tpl_is_custom (fst (deep_copy_template t h)) = tpl_is_custom t"
  by (simp_all add: deep_copy_template_def parse_template_def stringify_template_def split_beta)


lemma update_fresh_sections:
  assumes "length h \<le> a" and "allocated h xs"
  shows "stringify_sections ((h @ ext)[a := v]) xs = stringify_sections h xs"
  using assms by (simp add: list_update_append stringify_sections_append)

lemma update_fresh_template:
  assumes "length h \<le> a" and "allocated h (tpl_sections t)"
  shows "stringify_template ((h @ ext)[a := v]) t = stringify_template h t"
  using assms by (simp add: stringify_template_def update_fresh_sections)

lemma duplicateTemplate_copy:
  assumes "editedTemplate st = Some edited"
  shows "\<exists>copy st'. duplicateTemplate st = Inr st'
      \<and> editedTemplate st' = Some copy \<and> activeTemplate st' = Some copy
      \<and> tpl_id copy = Some ''new_template'' \<and> tpl_is_custom copy
      \<and> tpl_name copy = ''Copie de '' @ tpl_name edited
      \<and> tpl_description copy = tpl_description edited
      \<and> tpl_is_default copy = tpl_is_default edited
      \<and> stringify_sections (heap st') (tpl_sections copy) =
          stringify_sections (heap st) (tpl_sections edited)
      \<and> (\<forall>a. Obj a \<in> set (tpl_sections copy) \<longrightarrow> length (heap st) \<le> a \<and> a < length (heap st'))
      \<and> (\<forall>a v t. Obj a \<in> set (tpl_sections copy) \<longrightarrow> allocated (heap st) (tpl_sections t) \<longrightarrow>
            stringify_template ((heap st')[a := v]) t = stringify_template (heap st) t)
      \<and> templates st' = templates st \<and> requests st' = requests st"
proof -
  let ?p = "deep_copy_template edited (heap st)"
  let ?copy = "(fst ?p)\<lparr>tpl_id := Some ''new_template'', tpl_is_custom := True,
                          tpl_name := ''Copie de '' @ tpl_name (fst ?p)\<rparr>"
  let ?st = "st\<lparr>activeTemplate := Some ?copy, editedTemplate := Some ?copy, heap := snd ?p\<rparr>"
  obtain ext where ext: "snd ?p = heap st @ ext"
    using deep_copy_template_heap by blast
  have d: "duplicateTemplate st = Inr ?st"
    using assms by (simp add: duplicateTemplate_def split_beta Let_def)
  have same: "stringify_sections (heap ?st) (tpl_sections ?copy) =
          stringify_sections (heap st) (tpl_sections edited)"
    using deep_copy_template_same[of edited "heap st"]
    by (simp add: stringify_template_def)
  have fresh: "\<forall>a. Obj a \<in> set (tpl_sections ?copy) \<longrightarrow>
          length (heap st) \<le> a \<and> a < length (heap ?st)"
    using deep_copy_template_fresh[of _ edited "heap st"] by simp
  have apart: "\<forall>a v t. Obj a \<in> set (tpl_sections ?copy) \<longrightarrow> allocated (heap st) (tpl_sections t) \<longrightarrow>
          stringify_template ((heap ?st)[a := v]) t = stringify_template (heap st) t"
    using fresh ext by (simp add: update_fresh_template)
  show ?thesis
    using d same fresh apart by (intro exI[of _ ?copy] exI[of _ ?st]) simp
qed

lemma deep_copy_sections_heap:
  "\<exists>ext. snd (deep_copy_sections xs h) = h @ ext"
  by (simp add: deep_copy_sections_def parse_sections_heap)

lemma deep_copy_sections_fresh:
  "Obj a \<in> set (fst (deep_copy_sections xs h)) \<Longrightarrow>
   length h \<le> a \<and> a < length (snd (deep_copy_sections xs h))"
  using parse_sections_fresh[of a "stringify_sections h xs" h]
  by (simp add: deep_copy_sections_def)

lemma handleCreateTemplate_copy:
  assumes "trim (newTemplateName st) \<noteq> []" and "baseTemplate st = Some base"
  shows "\<exists>new. editedTemplate (handleCreateTemplate st) = Some new
      \<and> activeTemplate (handleCreateTemplate st) = Some new
      \<and> tpl_id new = Some ''new_template'' \<and> tpl_is_custom new
      \<and> tpl_name new = newTemplateName st
      \<and> stringify_sections (heap (handleCreateTemplate st)) (tpl_sections new) =
          stringify_sections (heap st) (tpl_sections base)
      \<and> (\<forall>a. Obj a \<in> set (tpl_sections new) \<longrightarrow>
            length (heap st) \<le> a \<and> a < length (heap (handleCreateTemplate st)))
      \<and> (\<forall>a v t. Obj a \<in> set (tpl_sections new) \<longrightarrow> allocated (heap st) (tpl_sections t) \<longrightarrow>
            stringify_template ((heap (handleCreateTemplate st))[a := v]) t =
            stringify_template (heap st) t)
      \<and> templates (handleCreateTemplate st) = templates st
      \<and> requests (handleCreateTemplate st) = requests st"
proof -
  let ?p = "deep_copy_sections (tpl_sections base) (heap st)"
  let ?new = "\<lparr>tpl_id = Some ''new_template'',
               tpl_name = newTemplateName st,
               tpl_description =
                 (if newTemplateDescription st \<noteq> [] then newTemplateDescription st
                  else ''Template personnalis'' @ e_acute @ '' bas'' @ e_acute @ '' sur '' @ tpl_name base),
               tpl_sections = fst ?p,
               tpl_is_default = False,
               tpl_is_custom = True\<rparr>"
  obtain ext where ext: "snd ?p = heap st @ ext"
    using deep_copy_sections_heap by blast
  have c: "handleCreateTemplate st =
      st\<lparr>showCreateDialog := False, activeTemplate := Some ?new, editedTemplate := Some ?new,
         newTemplateName := [], newTemplateDescription := [], baseTemplateId := [],
         heap := snd ?p\<rparr>"
    using assms by (simp add: handleCreateTemplate_def split_beta Let_def)
  have same: "stringify_sections (snd ?p) (fst ?p) = stringify_sections (heap st) (tpl_sections base)"
    by (rule deep_copy_sections_same)
  have fresh: "\<forall>a. Obj a \<in> set (fst ?p) \<longrightarrow> length (heap st) \<le> a \<and> a < length (snd ?p)"
    using deep_copy_sections_fresh[of _ "tpl_sections base" "heap st"] by simp
  have apart: "\<forall>a v t. Obj a \<in> set (fst ?p) \<longrightarrow> allocated (heap st) (tpl_sections t) \<longrightarrow>
          stringify_template ((snd ?p)[a := v]) t = stringify_template (heap st) t"
    using fresh ext by (simp add: update_fresh_template)
  show ?thesis
    unfolding c using same fresh apart by (intro exI[of _ ?new]) simp
qed


lemma parse_templates_roundtrip_append:
  "map (stringify_template (snd (parse_templates js h) @ ext)) (fst (parse_templates js h)) = js"
proof -
  have "map (stringify_template (snd (parse_templates js h) @ ext)) (fst (parse_templates js h)) =
        map (stringify_template (snd (parse_templates js h))) (fst (parse_templates js h))"
    by (rule map_cong[OF refl]) (simp add: stringify_template_append parse_templates_allocated)
  then show ?thesis by (simp add: parse_templates_roundtrip)
qed

lemma fetchTemplates_empty:
  assumes "ok r" and "body_json r = Inr []"
  shows "templates (fetchTemplates (Responded r) st) = []"
    and "activeTemplate (fetchTemplates (Responded r) st) = activeTemplate st"
    and "editedTemplate (fetchTemplates (Responded r) st) = editedTemplate st"
    and "error (fetchTemplates (Responded r) st) = None"
    and "toasts (fetchTemplates (Responded r) st) = toasts st"
    and "heap (fetchTemplates (Responded r) st) = heap st"
    and "isLoading (fetchTemplates (Responded r) st) = False"
  using assms by (simp_all add: fetchTemplates_def fetchTemplates_try_def)

lemma fetchTemplates_first:
  assumes "ok r" and "body_json r = Inr data" and "data \<noteq> []" and "activeTemplate st = None"
  shows "\<exists>first copy. activeTemplate (fetchTemplates (Responded r) st) = Some first
      \<and> editedTemplate (fetchTemplates (Responded r) st) = Some copy
      \<and> templates (fetchTemplates (Responded r) st) \<noteq> []
      \<and> first = hd (templates (fetchTemplates (Responded r) st))
      \<and> map (stringify_template (heap (fetchTemplates (Responded r) st)))
            (templates (fetchTemplates (Responded r) st)) = data
      \<and> stringify_template (heap (fetchTemplates (Responded r) st)) first = hd data
      \<and> stringify_template (heap (fetchTemplates (Responded r) st)) copy = hd data
      \<and> (\<forall>a. Obj a \<in> set (tpl_sections copy) \<longrightarrow>
            (\<forall>t \<in> set (templates (fetchTemplates (Responded r) st)). Obj a \<notin> set (tpl_sections t)))
      \<and> error (fetchTemplates (Responded r) st) = None
      \<and> toasts (fetchTemplates (Responded r) st) = toasts st"
proof -
  let ?st' = "fetchTemplates (Responded r) st"
  let ?p = "parse_templates data (heap st)"
  obtain j js where data: "data = j # js"
    using assms(3) by (cases data) auto
  have ne: "fst ?p \<noteq> []"
    using parse_templates_length[of data "heap st"] assms(3) by (cases "fst ?p") auto
  then obtain first rest where p: "fst ?p = first # rest"
    by (cases "fst ?p") auto
  let ?q = "deep_copy_template first (snd ?p)"
  obtain ext where ext: "snd ?q = snd ?p @ ext"
    using deep_copy_template_heap by blast
  have t: "templates ?st' = fst ?p"
    and a: "activeTemplate ?st' = Some first"
    and e: "editedTemplate ?st' = Some (fst ?q)"
    and h: "heap ?st' = snd ?q"
    and err: "error ?st' = None"
    and toa: "toasts ?st' = toasts st"
    using assms(1,2,4) p
    by (simp_all add: fetchTemplates_def fetchTemplates_try_def split_beta Let_def)
  have all: "map (stringify_template (snd ?q)) (fst ?p) = data"
    unfolding ext by (rule parse_templates_roundtrip_append)
  then have first: "stringify_template (snd ?q) first = hd data"
    using p data by auto
  have al: "allocated (snd ?p) (tpl_sections first)"
    using parse_templates_allocated[of first data "heap st"] p by simp
  have copy: "stringify_template (snd ?q) (fst ?q) = hd data"
    using deep_copy_template_same[of first "snd ?p"] first
      stringify_template_append[OF al, of ext] ext by simp
  have apart: "\<forall>a. Obj a \<in> set (tpl_sections (fst ?q)) \<longrightarrow>
      (\<forall>t \<in> set (fst ?p). Obj a \<notin> set (tpl_sections t))"
  proof (intro allI impI ballI)
    fix a t
    assume ca: "Obj a \<in> set (tpl_sections (fst ?q))" and tt: "t \<in> set (fst ?p)"
    from deep_copy_template_fresh[OF ca] have ge: "length (snd ?p) \<le> a" by simp
    show "Obj a \<notin> set (tpl_sections t)"
    proof
      assume "Obj a \<in> set (tpl_sections t)"
      with parse_templates_allocated[OF tt] have "a < length (snd ?p)"
        by (auto simp: allocated_def list_all_iff)
      with ge show False by simp
    qed
  qed
  show ?thesis
    using t a e h err toa all first copy apart ne p
    by (intro exI[of _ first] exI[of _ "fst ?q"]) simp
qed

section \<open>Properties of the editor and of the proxy handlers\<close>

subsection \<open>Create or update\<close>

lemma handleSave_try_requests:
  assumes "is_section_array (tpl_sections edited)"
  shows "\<exists>body rest. requests (handleSave_try edited save_reply list_reply st) =
           requests st @
           \<lparr>req_method = (if isNewTemplate (tpl_id edited) then POST else PUT),
             req_url = (if isNewTemplate (tpl_id edited) then backend
                        else backend @ ''/'' @ id_text (tpl_id edited)),
             req_body = Some body\<rparr> # rest
           \<and> (rest = [] \<or> rest = [list_request])"
  using validatedSections_section_array[OF assms, of "heap st"]
  by (simp add: handleSave_try_def Let_def split: fetch_result.split sum.split)

lemma isNewTemplate_iff:
  "isNewTemplate i \<longleftrightarrow> \<not> (\<exists>s. i = Some s \<and> startsWith s ''custom_'')"
  by (auto simp: isNewTemplate_def split: option.split)

text \<open>
  Claim C1. For every edit buffer passed to \<open>handleSave\<close> (a template whose
  \<open>sections\<close> is an array of sections), the handler sends one save request: a
  \<open>PUT\<close> to the URL of the buffer's id if the id is present and starts with
  \<open>custom_\<close>, and otherwise (id absent, or without the prefix) a \<open>POST\<close> to the
  collection of templates. The only request that may follow is the one that fetches the
  list again.
\<close>

theorem handleSave_create_or_update:
  assumes "editedTemplate st = Some edited"
    and "is_section_array (tpl_sections edited)"
  shows "\<exists>body rest. requests (handleSave save_reply list_reply st) =
           requests st @
           \<lparr>req_method = (if \<exists>s. tpl_id edited = Some s \<and> startsWith s ''custom_'' then PUT else POST),
             req_url = (if \<exists>s. tpl_id edited = Some s \<and> startsWith s ''custom_''
                        then ''http://127.0.0.1:8050/templates/'' @ the (tpl_id edited)
                        else ''http://127.0.0.1:8050/templates''),
             req_body = Some body\<rparr> # rest
           \<and> (rest = [] \<or> rest = [list_request])"
proof -
  let ?st = "st\<lparr>isSaving := True, error := None, success := None\<rparr>"
  from handleSave_try_requests[OF assms(2), of save_reply list_reply ?st]
  obtain body rest where
    r: "requests (handleSave_try edited save_reply list_reply ?st) =
          requests st @
          \<lparr>req_method = (if isNewTemplate (tpl_id edited) then POST else PUT),
            req_url = (if isNewTemplate (tpl_id edited) then backend
                       else backend @ ''/'' @ id_text (tpl_id edited)),
            req_body = Some body\<rparr> # rest"
    and rest: "rest = [] \<or> rest = [list_request]"
    by auto
  have "requests (handleSave save_reply list_reply st) =
          requests (handleSave_try edited save_reply list_reply ?st)"
    using assms(1) by (simp add: handleSave_def)
  with r rest show ?thesis
    by (auto simp: isNewTemplate_iff backend_def id_text_def)
qed

text \<open>
  The three buffers of the claim: id \<open>custom_42\<close> is updated, id \<open>default_7\<close> and an
  absent id are created.
\<close>

theorem handleSave_create_or_update_witness:
  "(\<exists>body rest. requests (handleSave (reply_json json_saved) (reply_json []) st_custom) =
      \<lparr>req_method = PUT, req_url = ''http://127.0.0.1:8050/templates/custom_42'',
        req_body = Some body\<rparr> # rest)
   \<and> (\<exists>body rest. requests (handleSave (reply_json json_saved) (reply_json []) st_default) =
      \<lparr>req_method = POST, req_url = ''http://127.0.0.1:8050/templates'',
        req_body = Some body\<rparr> # rest)
   \<and> (\<exists>body rest. requests (handleSave (reply_json json_saved) (reply_json [])
          (st_custom\<lparr>editedTemplate := Some (tpl_custom_42\<lparr>tpl_id := None\<rparr>)\<rparr>)) =
      \<lparr>req_method = POST, req_url = ''http://127.0.0.1:8050/templates'',
        req_body = Some body\<rparr> # rest)"
proof (intro conjI)
  have a: "editedTemplate st_custom = Some (tpl_custom_42\<lparr>tpl_sections := [Obj 4, Obj 5]\<rparr>)"
    by (simp add: st_custom_def)
  have b: "is_section_array (tpl_sections (tpl_custom_42\<lparr>tpl_sections := [Obj 4, Obj 5]\<rparr>))"
    by (simp add: is_section_array_def)
  show "\<exists>body rest. requests (handleSave (reply_json json_saved) (reply_json []) st_custom) =
      \<lparr>req_method = PUT, req_url = ''http://127.0.0.1:8050/templates/custom_42'',
        req_body = Some body\<rparr> # rest"
    using handleSave_create_or_update[OF a b, of "reply_json json_saved" "reply_json []"]
    by (auto simp add: tpl_custom_42_def st_custom_def st_listed_def st_empty_def)
next
  have a: "editedTemplate st_default = Some (tpl_default_7\<lparr>tpl_sections := [Obj 4, Obj 5]\<rparr>)"
    by (simp add: st_default_def)
  have b: "is_section_array (tpl_sections (tpl_default_7\<lparr>tpl_sections := [Obj 4, Obj 5]\<rparr>))"
    by (simp add: is_section_array_def)
  show "\<exists>body rest. requests (handleSave (reply_json json_saved) (reply_json []) st_default) =
      \<lparr>req_method = POST, req_url = ''http://127.0.0.1:8050/templates'',
        req_body = Some body\<rparr> # rest"
    using handleSave_create_or_update[OF a b, of "reply_json json_saved" "reply_json []"]
    by (auto simp add: tpl_default_7_def st_default_def st_listed_def st_empty_def)
next
  let ?st = "st_custom\<lparr>editedTemplate := Some (tpl_custom_42\<lparr>tpl_id := None\<rparr>)\<rparr>"
  have a: "editedTemplate ?st = Some (tpl_custom_42\<lparr>tpl_id := None\<rparr>)"
    by simp
  have b: "is_section_array (tpl_sections (tpl_custom_42\<lparr>tpl_id := None\<rparr>))"
    by (simp add: is_section_array_def tpl_custom_42_def)
  show "\<exists>body rest. requests (handleSave (reply_json json_saved) (reply_json []) ?st) =
      \<lparr>req_method = POST, req_url = ''http://127.0.0.1:8050/templates'',
        req_body = Some body\<rparr> # rest"
    using handleSave_create_or_update[OF a b, of "reply_json json_saved" "reply_json []"]
    by (auto simp add: tpl_custom_42_def st_custom_def st_listed_def st_empty_def)
qed

subsection \<open>Duplicating and creating from the dialog\<close>

text \<open>
  Claim C7. When the edit buffer holds a template that is not custom, the duplicate
  button puts into the edit buffer (and makes active) a template with the id
  \<open>new_template\<close>, the custom flag set, the name of the original after \<open>Copie de \<close>,
  and sections that are new objects with the contents of the original's sections:
  writing any value into a section object of the copy changes no template whose sections
  existed before. \<open>handleCreateTemplate\<close>, with a name that is not blank and a base
  template found, does the same with the sections of the base template and the entered
  name, and sends no request.
\<close>

theorem duplicate_and_create_deep_copy:
  "(editedTemplate st = Some edited \<and> \<not> tpl_is_custom edited \<longrightarrow>
      (\<exists>copy st'. duplicateTemplate st = Inr st'
        \<and> editedTemplate st' = Some copy \<and> activeTemplate st' = Some copy
        \<and> tpl_id copy = Some ''new_template'' \<and> tpl_is_custom copy
        \<and> tpl_name copy = ''Copie de '' @ tpl_name edited
        \<and> tpl_description copy = tpl_description edited
        \<and> tpl_is_default copy = tpl_is_default edited
        \<and> stringify_sections (heap st') (tpl_sections copy) =
            stringify_sections (heap st) (tpl_sections edited)
        \<and> (\<forall>a. Obj a \<in> set (tpl_sections copy) \<longrightarrow>
              length (heap st) \<le> a \<and> a < length (heap st'))
        \<and> (\<forall>a v t. Obj a \<in> set (tpl_sections copy) \<longrightarrow>
              allocated (heap st) (tpl_sections t) \<longrightarrow>
              stringify_template ((heap st')[a := v]) t = stringify_template (heap st) t)
        \<and> templates st' = templates st \<and> requests st' = requests st))
   \<and> (trim (newTemplateName st) \<noteq> [] \<and> baseTemplate st = Some base \<longrightarrow>
      (\<exists>new. editedTemplate (handleCreateTemplate st) = Some new
        \<and> activeTemplate (handleCreateTemplate st) = Some new
        \<and> tpl_id new = Some ''new_template'' \<and> tpl_is_custom new
        \<and> tpl_name new = newTemplateName st
        \<and> stringify_sections (heap (handleCreateTemplate st)) (tpl_sections new) =
            stringify_sections (heap st) (tpl_sections base)
        \<and> (\<forall>a. Obj a \<in> set (tpl_sections new) \<longrightarrow>
              length (heap st) \<le> a \<and> a < length (heap (handleCreateTemplate st)))
        \<and> (\<forall>a v t. Obj a \<in> set (tpl_sections new) \<longrightarrow>
              allocated (heap st) (tpl_sections t) \<longrightarrow>
              stringify_template ((heap (handleCreateTemplate st))[a := v]) t =
              stringify_template (heap st) t)
        \<and> templates (handleCreateTemplate st) = templates st
        \<and> requests (handleCreateTemplate st) = requests st))"
proof (intro conjI impI)
  assume "editedTemplate st = Some edited \<and> \<not> tpl_is_custom edited"
  then have "editedTemplate st = Some edited" by simp
  then show "\<exists>copy st'. duplicateTemplate st = Inr st'
        \<and> editedTemplate st' = Some copy \<and> activeTemplate st' = Some copy
        \<and> tpl_id copy = Some ''new_template'' \<and> tpl_is_custom copy
        \<and> tpl_name copy = ''Copie de '' @ tpl_name edited
        \<and> tpl_description copy = tpl_description edited
        \<and> tpl_is_default copy = tpl_is_default edited
        \<and> stringify_sections (heap st') (tpl_sections copy) =
            stringify_sections (heap st) (tpl_sections edited)
        \<and> (\<forall>a. Obj a \<in> set (tpl_sections copy) \<longrightarrow>
              length (heap st) \<le> a \<and> a < length (heap st'))
        \<and> (\<forall>a v t. Obj a \<in> set (tpl_sections copy) \<longrightarrow>
              allocated (heap st) (tpl_sections t) \<longrightarrow>
              stringify_template ((heap st')[a := v]) t = stringify_template (heap st) t)
        \<and> templates st' = templates st \<and> requests st' = requests st"
    by (rule duplicateTemplate_copy)
next
  assume "trim (newTemplateName st) \<noteq> [] \<and> baseTemplate st = Some base"
  then have "trim (newTemplateName st) \<noteq> []" and "baseTemplate st = Some base"
    by simp_all
  then show "\<exists>new. editedTemplate (handleCreateTemplate st) = Some new
        \<and> activeTemplate (handleCreateTemplate st) = Some new
        \<and> tpl_id new = Some ''new_template'' \<and> tpl_is_custom new
        \<and> tpl_name new = newTemplateName st
        \<and> stringify_sections (heap (handleCreateTemplate st)) (tpl_sections new) =
            stringify_sections (heap st) (tpl_sections base)
        \<and> (\<forall>a. Obj a \<in> set (tpl_sections new) \<longrightarrow>
              length (heap st) \<le> a \<and> a < length (heap (handleCreateTemplate st)))
        \<and> (\<forall>a v t. Obj a \<in> set (tpl_sections new) \<longrightarrow>
              allocated (heap st) (tpl_sections t) \<longrightarrow>
              stringify_template ((heap (handleCreateTemplate st))[a := v]) t =
              stringify_template (heap st) t)
        \<and> templates (handleCreateTemplate st) = templates st
        \<and> requests (handleCreateTemplate st) = requests st"
    by (rule handleCreateTemplate_copy)
qed

text \<open>
  In the example state the edit buffer holds the default template \<open>default_7\<close> and the
  dialog holds a name; the sections of the two copies are the objects 6 and 7 of the
  store, and the original \<open>default_7\<close> of the list reads the same after a write to
  object 6.
\<close>

theorem duplicate_and_create_deep_copy_witness:
  "editedTemplate st_dialog = Some (tpl_default_7\<lparr>tpl_sections := [Obj 4, Obj 5]\<rparr>)
   \<and> \<not> tpl_is_custom (tpl_default_7\<lparr>tpl_sections := [Obj 4, Obj 5]\<rparr>)
   \<and> trim (newTemplateName st_dialog) \<noteq> []
   \<and> baseTemplate st_dialog = Some tpl_default_7
   \<and> (\<exists>copy st'. duplicateTemplate st_dialog = Inr st'
        \<and> editedTemplate st' = Some copy
        \<and> tpl_id copy = Some ''new_template'' \<and> tpl_is_custom copy
        \<and> tpl_name copy = ''Copie de Fiche standard''
        \<and> tpl_sections copy = [Obj 6, Obj 7]
        \<and> stringify_sections (heap st') (tpl_sections copy) = [Some sec_intro, Some sec_usage]
        \<and> stringify_template ((heap st')[6 := empty_object]) tpl_default_7 =
            stringify_template (heap st_dialog) tpl_default_7)
   \<and> (\<exists>new. editedTemplate (handleCreateTemplate st_dialog) = Some new
        \<and> tpl_id new = Some ''new_template'' \<and> tpl_is_custom new
        \<and> tpl_name new = ''Ma fiche''
        \<and> tpl_sections new = [Obj 6, Obj 7]
        \<and> requests (handleCreateTemplate st_dialog) = [])"
proof -
  let ?edited = "tpl_default_7\<lparr>tpl_sections := [Obj 4, Obj 5]\<rparr>"
  have h1: "editedTemplate st_dialog = Some ?edited \<and> \<not> tpl_is_custom ?edited"
    by (simp add: st_dialog_def st_default_def tpl_default_7_def)
  have nb: "trim ''Ma fiche'' \<noteq> []"
    by code_simp
  have h2: "trim (newTemplateName st_dialog) \<noteq> [] \<and> baseTemplate st_dialog = Some tpl_default_7"
    using nb
    by (simp add: st_dialog_def st_default_def st_listed_def st_empty_def
        baseTemplate_def tpl_default_7_def tpl_custom_42_def)
  have al: "allocated (heap st_dialog) (tpl_sections tpl_default_7)"
    by (simp add: st_dialog_def st_default_def st_listed_def st_empty_def allocated_def tpl_default_7_def)
  have hp: "heap st_dialog = [sec_intro, sec_usage, sec_intro, sec_usage, sec_intro, sec_usage]"
    by (simp add: st_dialog_def st_default_def st_listed_def st_empty_def)
  have rq: "requests st_dialog = []"
    by (simp add: st_dialog_def st_default_def st_listed_def st_empty_def)
  have nm: "newTemplateName st_dialog = ''Ma fiche''"
    by (simp add: st_dialog_def)
  have dc: "fst (deep_copy_template ?edited (heap st_dialog)) =
      ?edited\<lparr>tpl_sections := [Obj 6, Obj 7]\<rparr>"
    by (simp add: hp deep_copy_template_def parse_template_def stringify_template_def
        stringify_sections_def alloc_def tpl_default_7_def)
  have dh: "snd (deep_copy_template ?edited (heap st_dialog)) =
      [sec_intro, sec_usage, sec_intro, sec_usage, sec_intro, sec_usage, sec_intro, sec_usage]"
    by (simp add: hp deep_copy_template_def parse_template_def stringify_template_def
        stringify_sections_def alloc_def)
  have ds: "deep_copy_sections (tpl_sections tpl_default_7) (heap st_dialog) =
      ([Obj 6, Obj 7], [sec_intro, sec_usage, sec_intro, sec_usage, sec_intro, sec_usage, sec_intro, sec_usage])"
    by (simp add: hp deep_copy_sections_def stringify_sections_def alloc_def tpl_default_7_def)
  have dup: "\<exists>copy st'. duplicateTemplate st_dialog = Inr st'
        \<and> editedTemplate st' = Some copy
        \<and> tpl_id copy = Some ''new_template'' \<and> tpl_is_custom copy
        \<and> tpl_name copy = ''Copie de Fiche standard''
        \<and> tpl_sections copy = [Obj 6, Obj 7]
        \<and> stringify_sections (heap st') (tpl_sections copy) = [Some sec_intro, Some sec_usage]
        \<and> stringify_template ((heap st')[6 := empty_object]) tpl_default_7 =
            stringify_template (heap st_dialog) tpl_default_7"
  proof -
    from duplicate_and_create_deep_copy[of st_dialog ?edited tpl_default_7] h1
    obtain copy st' where c: "duplicateTemplate st_dialog = Inr st'"
      "editedTemplate st' = Some copy" "tpl_id copy = Some ''new_template''" "tpl_is_custom copy"
      "tpl_name copy = ''Copie de '' @ tpl_name ?edited"
      "stringify_sections (heap st') (tpl_sections copy) =
         stringify_sections (heap st_dialog) (tpl_sections ?edited)"
      "\<forall>a v t. Obj a \<in> set (tpl_sections copy) \<longrightarrow>
              allocated (heap st_dialog) (tpl_sections t) \<longrightarrow>
              stringify_template ((heap st')[a := v]) t = stringify_template (heap st_dialog) t"
      by blast
    have sec: "tpl_sections copy = [Obj 6, Obj 7]"
      using c(1,2) h1 dc by (auto simp add: duplicateTemplate_def split_beta Let_def)
    have "stringify_template ((heap st')[6 := empty_object]) tpl_default_7 =
            stringify_template (heap st_dialog) tpl_default_7"
      using c(7) sec al by simp
    moreover have "stringify_sections (heap st') (tpl_sections copy) = [Some sec_intro, Some sec_usage]"
      using c(6) by (simp add: hp stringify_sections_def)
    moreover have "tpl_name copy = ''Copie de Fiche standard''"
      using c(5) by (simp add: tpl_default_7_def)
    ultimately show ?thesis using c(1-4) sec by blast
  qed
  have cr: "\<exists>new. editedTemplate (handleCreateTemplate st_dialog) = Some new
        \<and> tpl_id new = Some ''new_template'' \<and> tpl_is_custom new
        \<and> tpl_name new = ''Ma fiche''
        \<and> tpl_sections new = [Obj 6, Obj 7]
        \<and> requests (handleCreateTemplate st_dialog) = []"
  proof -
    from duplicate_and_create_deep_copy[of st_dialog ?edited tpl_default_7] h2
    obtain new where n: "editedTemplate (handleCreateTemplate st_dialog) = Some new"
      "tpl_id new = Some ''new_template''" "tpl_is_custom new"
      "tpl_name new = newTemplateName st_dialog"
      "requests (handleCreateTemplate st_dialog) = requests st_dialog"
      by blast
    have "tpl_sections new = [Obj 6, Obj 7]"
      using n(1) h2 ds by (auto simp add: handleCreateTemplate_def Let_def)
    with n nm rq show ?thesis by simp
  qed
  from h1 h2 dup cr show ?thesis by blast
qed

subsection \<open>Fetching the list\<close>

text \<open>
  Claim C8. After a successful fetch of the template list (\<open>fetchTemplates\<close> with a
  response that is ok and whose body parses): if the returned list is not empty and no
  template is active, the first template of the list, in the returned order, becomes the
  active template, and the edit buffer holds a deep copy of it (the same contents, in
  section objects that no template of the list refers to); if the returned list is empty,
  the list of the component is empty, the active template and the edit buffer stay as they
  were (so nothing is selected when nothing was), and the handler ends without an error
  message or toast.
\<close>

theorem fetchTemplates_selects_first:
  assumes "ok r" and "body_json r = Inr data"
  shows "(data \<noteq> [] \<and> activeTemplate st = None \<longrightarrow>
      (\<exists>first copy. activeTemplate (fetchTemplates (Responded r) st) = Some first
        \<and> editedTemplate (fetchTemplates (Responded r) st) = Some copy
        \<and> templates (fetchTemplates (Responded r) st) \<noteq> []
        \<and> first = hd (templates (fetchTemplates (Responded r) st))
        \<and> map (stringify_template (heap (fetchTemplates (Responded r) st)))
              (templates (fetchTemplates (Responded r) st)) = data
        \<and> stringify_template (heap (fetchTemplates (Responded r) st)) first = hd data
        \<and> stringify_template (heap (fetchTemplates (Responded r) st)) copy = hd data
        \<and> (\<forall>a. Obj a \<in> set (tpl_sections copy) \<longrightarrow>
              (\<forall>t \<in> set (templates (fetchTemplates (Responded r) st)). Obj a \<notin> set (tpl_sections t)))
        \<and> error (fetchTemplates (Responded r) st) = None
        \<and> toasts (fetchTemplates (Responded r) st) = toasts st))
    \<and> (data = [] \<longrightarrow>
        templates (fetchTemplates (Responded r) st) = []
        \<and> activeTemplate (fetchTemplates (Responded r) st) = activeTemplate st
        \<and> editedTemplate (fetchTemplates (Responded r) st) = editedTemplate st
        \<and> error (fetchTemplates (Responded r) st) = None
        \<and> toasts (fetchTemplates (Responded r) st) = toasts st)"
proof (intro conjI impI)
  assume "data \<noteq> [] \<and> activeTemplate st = None"
  then have "data \<noteq> []" and "activeTemplate st = None" by simp_all
  with assms show "\<exists>first copy. activeTemplate (fetchTemplates (Responded r) st) = Some first
        \<and> editedTemplate (fetchTemplates (Responded r) st) = Some copy
        \<and> templates (fetchTemplates (Responded r) st) \<noteq> []
        \<and> first = hd (templates (fetchTemplates (Responded r) st))
        \<and> map (stringify_template (heap (fetchTemplates (Responded r) st)))
              (templates (fetchTemplates (Responded r) st)) = data
        \<and> stringify_template (heap (fetchTemplates (Responded r) st)) first = hd data
        \<and> stringify_template (heap (fetchTemplates (Responded r) st)) copy = hd data
        \<and> (\<forall>a. Obj a \<in> set (tpl_sections copy) \<longrightarrow>
              (\<forall>t \<in> set (templates (fetchTemplates (Responded r) st)). Obj a \<notin> set (tpl_sections t)))
        \<and> error (fetchTemplates (Responded r) st) = None
        \<and> toasts (fetchTemplates (Responded r) st) = toasts st"
    by (rule fetchTemplates_first)
next
  assume d: "data = []"
  with assms have b: "body_json r = Inr []" by simp
  show "templates (fetchTemplates (Responded r) st) = []"
    by (rule fetchTemplates_empty[OF assms(1) b])
  show "activeTemplate (fetchTemplates (Responded r) st) = activeTemplate st"
    by (rule fetchTemplates_empty[OF assms(1) b])
  show "editedTemplate (fetchTemplates (Responded r) st) = editedTemplate st"
    by (rule fetchTemplates_empty[OF assms(1) b])
  show "error (fetchTemplates (Responded r) st) = None"
    by (rule fetchTemplates_empty[OF assms(1) b])
  show "toasts (fetchTemplates (Responded r) st) = toasts st"
    by (rule fetchTemplates_empty[OF assms(1) b])
qed

text \<open>
  On the initial state of the component: the list with the template \<open>default_7\<close> selects
  it, and the empty list leaves nothing selected.
\<close>

theorem fetchTemplates_selects_first_witness:
  "ok \<lparr>status = 200, body_text = None, body_json = Inr [json_default_7]\<rparr>
   \<and> activeTemplate st_empty = None
   \<and> (\<exists>first copy.
        activeTemplate (fetchTemplates (reply_json [json_default_7]) st_empty) = Some first
        \<and> editedTemplate (fetchTemplates (reply_json [json_default_7]) st_empty) = Some copy
        \<and> stringify_template (heap (fetchTemplates (reply_json [json_default_7]) st_empty)) first
            = json_default_7
        \<and> stringify_template (heap (fetchTemplates (reply_json [json_default_7]) st_empty)) copy
            = json_default_7)
   \<and> activeTemplate (fetchTemplates (reply_json []) st_empty) = None
   \<and> editedTemplate (fetchTemplates (reply_json []) st_empty) = None
   \<and> error (fetchTemplates (reply_json []) st_empty) = None"
proof -
  let ?r = "\<lambda>d. \<lparr>status = 200, body_text = None, body_json = Inr d\<rparr> :: Section option Template list response"
  have k: "ok (?r d)" for d by (simp add: ok_def)
  have n: "activeTemplate st_empty = None" "editedTemplate st_empty = None"
    by (simp_all add: st_empty_def)
  have one: "\<exists>first copy.
        activeTemplate (fetchTemplates (reply_json [json_default_7]) st_empty) = Some first
        \<and> editedTemplate (fetchTemplates (reply_json [json_default_7]) st_empty) = Some copy
        \<and> stringify_template (heap (fetchTemplates (reply_json [json_default_7]) st_empty)) first
            = json_default_7
        \<and> stringify_template (heap (fetchTemplates (reply_json [json_default_7]) st_empty)) copy
            = json_default_7"
    using fetchTemplates_selects_first[OF k, of "[json_default_7]" "[json_default_7]" st_empty] n
    by (simp add: reply_json_def) blast
  have none: "activeTemplate (fetchTemplates (reply_json []) st_empty) = None
      \<and> editedTemplate (fetchTemplates (reply_json []) st_empty) = None
      \<and> error (fetchTemplates (reply_json []) st_empty) = None"
    using fetchTemplates_selects_first[OF k, of "[]" "[]" st_empty] n
    by (simp add: reply_json_def)
  from k n one none show ?thesis by blast
qed

subsection \<open>Editing a field\<close>

lemma spread_array_section_array:
  "is_section_array xs \<Longrightarrow> spread_array xs = xs"
proof (induction xs)
  case Nil
  show ?case by (simp add: spread_array_def)
next
  case (Cons x xs)
  then show ?case by (cases x) (simp_all add: spread_array_def is_section_array_def)
qed

lemma section_array_nth:
  "is_section_array xs \<Longrightarrow> i < length xs \<Longrightarrow> \<exists>a. xs ! i = Obj a"
proof -
  assume "is_section_array xs" and "i < length xs"
  then have "is_obj (xs ! i)" by (simp add: is_section_array_def list_all_length)
  then show ?thesis by (cases "xs ! i") simp_all
qed

lemma get_set_field_same: "get_field f (set_field f v s) = v"
  by (cases f) simp_all

lemma get_set_field_other: "g \<noteq> f \<Longrightarrow> get_field g (set_field f v s) = get_field g s"
  by (cases f; cases g) simp_all

lemma handleSectionChange_state:
  assumes "editedTemplate st = Some edited"
  shows "handleSectionChange index fld v st =
     st\<lparr>editedTemplate :=
           Some (edited\<lparr>tpl_sections :=
                          array_set (spread_array (tpl_sections edited)) index (Obj (length (heap st)))\<rparr>),
        heap := heap st @
           [set_field fld v (spread_object (heap st) (array_get (spread_array (tpl_sections edited)) index))]\<rparr>"
  using assms by (simp add: handleSectionChange_def Let_def alloc_def)

lemma array_get_spread_array [simp]:
  "array_get (spread_array xs) j = array_get xs j"
proof (cases "j < length xs")
  case True
  then show ?thesis
    by (cases "xs ! j") (simp_all add: array_get_def spread_array_def)
next
  case False
  then show ?thesis by (simp add: array_get_def spread_array_def)
qed

lemma array_get_array_set_same:
  "array_get (array_set xs i (Obj a)) i = Obj a"
  by (simp add: array_get_def array_set_def nth_append)

lemma array_get_array_set_other:
  assumes "j \<noteq> i"
  shows "array_get (array_set xs i v) j = array_get xs j"
proof (cases "i < length xs")
  case True
  with assms show ?thesis by (simp add: array_get_def array_set_def)
next
  case False
  show ?thesis
  proof (cases "j < length xs")
    case True
    with False show ?thesis by (simp add: array_get_def array_set_def nth_append)
  next
    case out: False
    show ?thesis
    proof (cases "j < i")
      case True
      with out have "j - length xs < i - length xs" by arith
      with True False out show ?thesis
        by (simp add: array_get_def array_set_def nth_append)
    next
      case False
      with assms \<open>\<not> i < length xs\<close> out show ?thesis
        by (simp add: array_get_def array_set_def)
    qed
  qed
qed

text \<open>
  Claim C9. For every call of \<open>handleSectionChange\<close> with an edit buffer present: the
  list of templates and the active template are the same, the store only gains one new
  object (so every template whose sections existed reads as before), and the edit buffer
  keeps its id, name, description and flags. In the array of the buffer, read as
  JavaScript reads it, every index other than the given one gives what it gave before,
  and the given index gives the new object, which has the given value in the named field
  and, in every other field, the value that the old slot had (\<open>undefined\<close> everywhere if
  that slot held no object). When the index is that of a section of the buffer, the array
  keeps its length, every other slot refers to the same object as before, and only the
  named field of the section at the index differs.
\<close>

theorem handleSectionChange_frame:
  assumes "editedTemplate st = Some edited"
  shows "templates (handleSectionChange index fld v st) = templates st
    \<and> activeTemplate (handleSectionChange index fld v st) = activeTemplate st
    \<and> (\<exists>new. heap (handleSectionChange index fld v st) = heap st @ [new])
    \<and> (\<forall>t. allocated (heap st) (tpl_sections t) \<longrightarrow>
          stringify_template (heap (handleSectionChange index fld v st)) t =
          stringify_template (heap st) t)
    \<and> (\<exists>edited' a'. editedTemplate (handleSectionChange index fld v st) = Some edited'
          \<and> tpl_id edited' = tpl_id edited \<and> tpl_name edited' = tpl_name edited
          \<and> tpl_description edited' = tpl_description edited
          \<and> tpl_is_default edited' = tpl_is_default edited
          \<and> tpl_is_custom edited' = tpl_is_custom edited
          \<and> array_get (tpl_sections edited') index = Obj a'
          \<and> (\<forall>j. j \<noteq> index \<longrightarrow>
                array_get (tpl_sections edited') j = array_get (tpl_sections edited) j)
          \<and> get_field fld (heap (handleSectionChange index fld v st) ! a') = v
          \<and> (\<forall>g. g \<noteq> fld \<longrightarrow>
                get_field g (heap (handleSectionChange index fld v st) ! a') =
                get_field g (spread_object (heap st) (array_get (tpl_sections edited) index)))
          \<and> (is_section_array (tpl_sections edited) \<and> index < length (tpl_sections edited) \<longrightarrow>
               (\<exists>a. tpl_sections edited ! index = Obj a
                  \<and> tpl_sections edited' ! index = Obj a'
                  \<and> length (tpl_sections edited') = length (tpl_sections edited)
                  \<and> (\<forall>j < length (tpl_sections edited). j \<noteq> index \<longrightarrow>
                        tpl_sections edited' ! j = tpl_sections edited ! j)
                  \<and> (\<forall>g. g \<noteq> fld \<longrightarrow>
                        get_field g (heap (handleSectionChange index fld v st) ! a') =
                        get_field g (heap st ! a)))))"
proof -
  let ?xs = "spread_array (tpl_sections edited)"
  let ?new = "set_field fld v (spread_object (heap st) (array_get ?xs index))"
  let ?a' = "length (heap st)"
  let ?edited' = "edited\<lparr>tpl_sections := array_set ?xs index (Obj ?a')\<rparr>"
  note s = handleSectionChange_state[OF assms, of index fld v]
  have frame: "\<forall>t. allocated (heap st) (tpl_sections t) \<longrightarrow>
          stringify_template (heap st @ [?new]) t = stringify_template (heap st) t"
    by (simp add: stringify_template_append)
  have slot: "array_get (tpl_sections ?edited') index = Obj ?a'"
    by (simp add: array_get_array_set_same)
  have others: "\<forall>j. j \<noteq> index \<longrightarrow>
      array_get (tpl_sections ?edited') j = array_get (tpl_sections edited) j"
    by (simp add: array_get_array_set_other)
  have fld: "get_field fld ((heap st @ [?new]) ! ?a') = v"
    by (simp add: get_set_field_same del: set_field.simps)
  have rest: "\<forall>g. g \<noteq> fld \<longrightarrow>
      get_field g ((heap st @ [?new]) ! ?a') =
      get_field g (spread_object (heap st) (array_get (tpl_sections edited) index))"
    by (simp add: get_set_field_other del: set_field.simps)
  have inrange: "\<exists>a. tpl_sections edited ! index = Obj a
                  \<and> tpl_sections ?edited' ! index = Obj ?a'
                  \<and> length (tpl_sections ?edited') = length (tpl_sections edited)
                  \<and> (\<forall>j < length (tpl_sections edited). j \<noteq> index \<longrightarrow>
                        tpl_sections ?edited' ! j = tpl_sections edited ! j)
                  \<and> (\<forall>g. g \<noteq> fld \<longrightarrow>
                        get_field g ((heap st @ [?new]) ! ?a') = get_field g (heap st ! a))"
    if wt: "is_section_array (tpl_sections edited)" and i: "index < length (tpl_sections edited)"
  proof -
    obtain a where a: "tpl_sections edited ! index = Obj a"
      using section_array_nth[OF wt i] by blast
    have xs: "?xs = tpl_sections edited"
      by (rule spread_array_section_array[OF wt])
    show ?thesis
      apply (rule exI[of _ a])
      using a i
      apply (simp add: xs array_set_def array_get_def get_set_field_other del: set_field.simps)
      done
  qed
  have ed: "tpl_id ?edited' = tpl_id edited \<and> tpl_name ?edited' = tpl_name edited
          \<and> tpl_description ?edited' = tpl_description edited
          \<and> tpl_is_default ?edited' = tpl_is_default edited
          \<and> tpl_is_custom ?edited' = tpl_is_custom edited"
    by simp
  have buffer: "\<exists>edited' a'. Some ?edited' = Some edited'
          \<and> tpl_id edited' = tpl_id edited \<and> tpl_name edited' = tpl_name edited
          \<and> tpl_description edited' = tpl_description edited
          \<and> tpl_is_default edited' = tpl_is_default edited
          \<and> tpl_is_custom edited' = tpl_is_custom edited
          \<and> array_get (tpl_sections edited') index = Obj a'
          \<and> (\<forall>j. j \<noteq> index \<longrightarrow>
                array_get (tpl_sections edited') j = array_get (tpl_sections edited) j)
          \<and> get_field fld ((heap st @ [?new]) ! a') = v
          \<and> (\<forall>g. g \<noteq> fld \<longrightarrow>
                get_field g ((heap st @ [?new]) ! a') =
                get_field g (spread_object (heap st) (array_get (tpl_sections edited) index)))
          \<and> (is_section_array (tpl_sections edited) \<and> index < length (tpl_sections edited) \<longrightarrow>
               (\<exists>a. tpl_sections edited ! index = Obj a
                  \<and> tpl_sections edited' ! index = Obj a'
                  \<and> length (tpl_sections edited') = length (tpl_sections edited)
                  \<and> (\<forall>j < length (tpl_sections edited). j \<noteq> index \<longrightarrow>
                        tpl_sections edited' ! j = tpl_sections edited ! j)
                  \<and> (\<forall>g. g \<noteq> fld \<longrightarrow>
                        get_field g ((heap st @ [?new]) ! a') = get_field g (heap st ! a))))"
    apply (rule exI[of _ ?edited'])
    apply (rule exI[of _ ?a'])
    using ed slot others fld rest inrange
    apply blast
    done
  show ?thesis
    unfolding s using frame buffer
    by (simp del: set_field.simps)
qed

text \<open>
  In the example state with the custom template in the edit buffer, renaming the second
  section changes the name of the object in slot 1, keeps its order, and keeps slot 0,
  the list and the active template.
\<close>

theorem handleSectionChange_frame_witness:
  "editedTemplate st_custom = Some (tpl_custom_42\<lparr>tpl_sections := [Obj 4, Obj 5]\<rparr>)
   \<and> is_section_array (tpl_sections (tpl_custom_42\<lparr>tpl_sections := [Obj 4, Obj 5]\<rparr>))
   \<and> (1::nat) < length (tpl_sections (tpl_custom_42\<lparr>tpl_sections := [Obj 4, Obj 5]\<rparr>))
   \<and> templates (handleSectionChange 1 F_name (JStr ''Mode d emploi'') st_custom) = templates st_custom
   \<and> activeTemplate (handleSectionChange 1 F_name (JStr ''Mode d emploi'') st_custom) =
       activeTemplate st_custom
   \<and> (\<exists>edited' a'.
         editedTemplate (handleSectionChange 1 F_name (JStr ''Mode d emploi'') st_custom) = Some edited'
         \<and> tpl_sections edited' ! 1 = Obj a'
         \<and> tpl_sections edited' ! 0 = Obj 4
         \<and> get_field F_name (heap (handleSectionChange 1 F_name (JStr ''Mode d emploi'') st_custom) ! a')
             = JStr ''Mode d emploi''
         \<and> get_field F_order (heap (handleSectionChange 1 F_name (JStr ''Mode d emploi'') st_custom) ! a')
             = JNum 2)"
proof -
  let ?E = "tpl_custom_42\<lparr>tpl_sections := [Obj 4, Obj 5]\<rparr>"
  let ?st' = "handleSectionChange 1 F_name (JStr ''Mode d emploi'') st_custom"
  have e: "editedTemplate st_custom = Some ?E"
    by (simp add: st_custom_def)
  have w: "is_section_array (tpl_sections ?E) \<and> (1::nat) < length (tpl_sections ?E)"
    by (simp add: is_section_array_def)
  have o: "get_field F_order (heap st_custom ! 5) = JNum 2"
    by (simp add: st_custom_def st_listed_def st_empty_def sec_usage_def)
  from handleSectionChange_frame[OF e, of 1 F_name "JStr ''Mode d emploi''"] w
  obtain edited' a a' where
    t: "templates ?st' = templates st_custom" "activeTemplate ?st' = activeTemplate st_custom"
    and ed: "editedTemplate ?st' = Some edited'"
    and a: "tpl_sections ?E ! 1 = Obj a" "tpl_sections edited' ! 1 = Obj a'"
    and other: "\<forall>j < length (tpl_sections ?E). j \<noteq> 1 \<longrightarrow> tpl_sections edited' ! j = tpl_sections ?E ! j"
    and f: "get_field F_name (heap ?st' ! a') = JStr ''Mode d emploi''"
    and g: "\<forall>g. g \<noteq> F_name \<longrightarrow> get_field g (heap ?st' ! a') = get_field g (heap st_custom ! a)"
    by blast
  from a(1) have a5: "a = 5" by simp
  from other have z: "tpl_sections edited' ! 0 = Obj 4" by simp
  from g have "get_field F_order (heap ?st' ! a') = get_field F_order (heap st_custom ! a)"
    by blast
  with a5 o have "get_field F_order (heap ?st' ! a') = JNum 2" by simp
  with e w t ed a(2) z f show ?thesis by blast
qed

subsection \<open>Creating from the dialog with no template\<close>

text \<open>
  Claim C10. When \<open>handleCreateTemplate\<close> is called with an empty list of templates and
  a name that is not blank, the base template is \<open>undefined\<close>, the \<open>TypeError\<close> of reading
  a property of it is caught by the handler: an error message with the message of the
  exception is set and an error toast is shown, and nothing else of the state changes; in
  particular the active template and the edit buffer are the same.
\<close>

theorem handleCreateTemplate_no_template:
  assumes "templates st = []" and "trim (newTemplateName st) \<noteq> []"
  shows "\<exists>err. handleCreateTemplate st =
      st\<lparr>error := Some (''Erreur lors de la cr'' @ e_acute @ ''ation du template: '' @ message err),
         toasts := toasts st @
           [\<lparr>toast_title = ''Erreur'',
             toast_description =
               ''Impossible de cr'' @ e_acute @ ''er le template. Veuillez r'' @ e_acute @ ''essayer.'',
             toast_destructive = True\<rparr>]\<rparr>
    \<and> (err = cannot_read ''undefined'' ''name'' \<or> err = cannot_read ''undefined'' ''sections'')
    \<and> activeTemplate (handleCreateTemplate st) = activeTemplate st
    \<and> editedTemplate (handleCreateTemplate st) = editedTemplate st"
proof -
  have b: "baseTemplate st = None"
    using assms(1) by (simp add: baseTemplate_def)
  let ?err = "if newTemplateDescription st \<noteq> [] then cannot_read ''undefined'' ''sections''
              else cannot_read ''undefined'' ''name''"
  have "handleCreateTemplate st = handleCreateTemplate_catch ?err st"
    using assms(2) b by (simp add: handleCreateTemplate_def)
  then show ?thesis
    by (intro exI[of _ ?err]) (simp add: handleCreateTemplate_catch_def show_toast_def)
qed

text \<open>The initial state with a name typed into the dialog.\<close>

theorem handleCreateTemplate_no_template_witness:
  "templates (st_empty\<lparr>newTemplateName := ''Ma fiche''\<rparr>) = []
   \<and> trim (newTemplateName (st_empty\<lparr>newTemplateName := ''Ma fiche''\<rparr>)) \<noteq> []
   \<and> error (handleCreateTemplate (st_empty\<lparr>newTemplateName := ''Ma fiche''\<rparr>)) =
       Some (''Erreur lors de la cr'' @ e_acute @ ''ation du template: '' @
             message (cannot_read ''undefined'' ''name''))
   \<and> activeTemplate (handleCreateTemplate (st_empty\<lparr>newTemplateName := ''Ma fiche''\<rparr>)) = None
   \<and> editedTemplate (handleCreateTemplate (st_empty\<lparr>newTemplateName := ''Ma fiche''\<rparr>)) = None"
proof -
  let ?st = "st_empty\<lparr>newTemplateName := ''Ma fiche''\<rparr>"
  have nb: "trim ''Ma fiche'' \<noteq> []"
    by code_simp
  have h: "templates ?st = []" "trim (newTemplateName ?st) \<noteq> []"
    using nb by (simp_all add: st_empty_def)
  have d: "newTemplateDescription ?st = []" "activeTemplate ?st = None" "editedTemplate ?st = None"
    by (simp_all add: st_empty_def)
  from handleCreateTemplate_no_template[OF h] d
  have "activeTemplate (handleCreateTemplate ?st) = None"
    and "editedTemplate (handleCreateTemplate ?st) = None"
    by auto
  moreover have "error (handleCreateTemplate ?st) =
       Some (''Erreur lors de la cr'' @ e_acute @ ''ation du template: '' @
             message (cannot_read ''undefined'' ''name''))"
    using h d by (simp add: handleCreateTemplate_def baseTemplate_def handleCreateTemplate_catch_def)
  ultimately show ?thesis using h by blast
qed

subsection \<open>Deleting a template\<close>

lemma fetchTemplates_try_isDeleting [simp]:
  "isDeleting (fetchTemplates_try reply st) = isDeleting st"
  by (simp add: fetchTemplates_try_def Let_def split: fetch_result.split sum.split prod.split list.split)

lemma fetchTemplates_try_success [simp]:
  "success (fetchTemplates_try reply st) = success st"
  by (simp add: fetchTemplates_try_def Let_def split: fetch_result.split sum.split prod.split list.split)

lemma fetchTemplates_templates:
  "templates (fetchTemplates reply st) =
     (case reply of
        Rejected err \<Rightarrow> templates st
      | Responded r \<Rightarrow>
          if ok r then
            (case body_json r of
               Inl err \<Rightarrow> templates st
             | Inr data \<Rightarrow> fst (parse_templates data (heap st)))
          else templates st)"
  by (simp add: fetchTemplates_def fetchTemplates_try_def Let_def split_beta
      split: fetch_result.split sum.split list.split)

lemma handleDelete_noop:
  assumes "activeTemplate st = None \<or> (\<exists>active. activeTemplate st = Some active \<and> \<not> tpl_is_custom active)"
  shows "handleDelete delete_reply list_reply st = st"
  using assms by (auto simp: handleDelete_def)

lemma handleDelete_failed:
  assumes "activeTemplate st = Some active" and "tpl_is_custom active" and "failed delete_reply"
  shows "\<exists>msg. handleDelete delete_reply list_reply st =
      st\<lparr>error := Some (''Erreur lors de la suppression: '' @ msg),
         success := None,
         isDeleting := False,
         toasts := toasts st @
           [\<lparr>toast_title = ''Erreur'',
             toast_description =
               ''Impossible de supprimer le template. Veuillez r'' @ e_acute @ ''essayer.'',
             toast_destructive = True\<rparr>],
         requests := requests st @ [delete_request active]\<rparr>"
proof (cases delete_reply)
  case (Rejected err)
  with assms(1,2) show ?thesis
    by (intro exI[of _ "message err"])
       (simp add: handleDelete_def handleDelete_try_def handleDelete_catch_def Let_def
          show_toast_def send_def delete_request_def backend_def)
next
  case (Responded response)
  with assms show ?thesis
    by (intro exI[of _ "''Erreur lors de la suppression: '' @ string_of_nat (status response)"])
       (simp add: handleDelete_def handleDelete_try_def handleDelete_catch_def Let_def
          show_toast_def send_def delete_request_def backend_def)
qed

lemma handleDelete_done:
  assumes "activeTemplate st = Some active" and "tpl_is_custom active"
    and "delete_reply = Responded response" and "ok response"
  shows "activeTemplate (handleDelete delete_reply list_reply st) = None"
    and "editedTemplate (handleDelete delete_reply list_reply st) = None"
    and "requests (handleDelete delete_reply list_reply st) =
           requests st @ [delete_request active, list_request]"
    and "templates (handleDelete delete_reply list_reply st) =
           templates (fetchTemplates list_reply st)"
    and "success (handleDelete delete_reply list_reply st) =
           Some (''Template supprim'' @ e_acute @ '' avec succ'' @ e_grave @ ''s'')"
proof -
  let ?st1 = "send DELETE (backend @ ''/'' @ id_text (tpl_id active)) None
                (st\<lparr>isDeleting := True, error := None, success := None\<rparr>)"
  have d: "handleDelete delete_reply list_reply st =
      (show_toast (''Succ'' @ e_grave @ ''s'')
         (''Le template a '' @ e_acute @ ''t'' @ e_acute @ '' supprim'' @ e_acute @ '' avec succ'' @ e_grave @ ''s.'') False
         ((fetchTemplates list_reply ?st1)
            \<lparr>activeTemplate := None, editedTemplate := None,
             success := Some (''Template supprim'' @ e_acute @ '' avec succ'' @ e_grave @ ''s'')\<rparr>))
      \<lparr>isDeleting := False\<rparr>"
    using assms by (simp add: handleDelete_def handleDelete_try_def Let_def)
  have t: "templates (fetchTemplates list_reply ?st1) = templates (fetchTemplates list_reply st)"
    by (simp add: fetchTemplates_templates split: fetch_result.split sum.split)
  show "activeTemplate (handleDelete delete_reply list_reply st) = None"
    and "editedTemplate (handleDelete delete_reply list_reply st) = None"
    and "success (handleDelete delete_reply list_reply st) =
           Some (''Template supprim'' @ e_acute @ '' avec succ'' @ e_grave @ ''s'')"
    by (simp_all add: d)
  show "requests (handleDelete delete_reply list_reply st) =
           requests st @ [delete_request active, list_request]"
    by (simp add: d delete_request_def backend_def)
  show "templates (handleDelete delete_reply list_reply st) =
           templates (fetchTemplates list_reply st)"
    using t by (simp add: d)
qed


lemma not_failed_iff:
  "\<not> failed reply \<longleftrightarrow> (\<exists>response. reply = Responded response \<and> ok response)"
  by (cases reply) simp_all

text \<open>
  Claim C6. \<open>handleDelete\<close> changes nothing and sends nothing unless there is an active
  template and it is custom. When it runs and the call to the backend fails (the promise
  is rejected or the response is not ok), the list of templates, the active template, the
  edit buffer and the store are the same; an error message is set, an error toast is
  shown, and the only request is the \<open>DELETE\<close>. When the call succeeds, the list is
  fetched again (the \<open>GET\<close> follows the \<open>DELETE\<close>, and the list is the one that
  \<open>fetchTemplates\<close> leaves), and the active template and the edit buffer are both
  cleared.
\<close>

theorem handleDelete_effects:
  "((activeTemplate st = None \<or> (\<exists>t. activeTemplate st = Some t \<and> \<not> tpl_is_custom t)) \<longrightarrow>
      handleDelete delete_reply list_reply st = st)
   \<and> (activeTemplate st = Some active \<and> tpl_is_custom active \<and> failed delete_reply \<longrightarrow>
      templates (handleDelete delete_reply list_reply st) = templates st
      \<and> activeTemplate (handleDelete delete_reply list_reply st) = activeTemplate st
      \<and> editedTemplate (handleDelete delete_reply list_reply st) = editedTemplate st
      \<and> heap (handleDelete delete_reply list_reply st) = heap st
      \<and> (\<exists>msg. error (handleDelete delete_reply list_reply st) =
            Some (''Erreur lors de la suppression: '' @ msg))
      \<and> toasts (handleDelete delete_reply list_reply st) =
          toasts st @
            [\<lparr>toast_title = ''Erreur'',
              toast_description =
                ''Impossible de supprimer le template. Veuillez r'' @ e_acute @ ''essayer.'',
              toast_destructive = True\<rparr>]
      \<and> requests (handleDelete delete_reply list_reply st) =
          requests st @ [delete_request active])
   \<and> (activeTemplate st = Some active \<and> tpl_is_custom active \<and> \<not> failed delete_reply \<longrightarrow>
      activeTemplate (handleDelete delete_reply list_reply st) = None
      \<and> editedTemplate (handleDelete delete_reply list_reply st) = None
      \<and> requests (handleDelete delete_reply list_reply st) =
          requests st @ [delete_request active, list_request]
      \<and> templates (handleDelete delete_reply list_reply st) =
          templates (fetchTemplates list_reply st))"
proof (intro conjI impI)
  assume "activeTemplate st = None \<or> (\<exists>t. activeTemplate st = Some t \<and> \<not> tpl_is_custom t)"
  then show "handleDelete delete_reply list_reply st = st"
    by (rule handleDelete_noop)
next
  assume "activeTemplate st = Some active \<and> tpl_is_custom active \<and> failed delete_reply"
  then have "activeTemplate st = Some active" "tpl_is_custom active" "failed delete_reply"
    by simp_all
  from handleDelete_failed[OF this, of list_reply] obtain msg where
    m: "handleDelete delete_reply list_reply st =
      st\<lparr>error := Some (''Erreur lors de la suppression: '' @ msg),
         success := None,
         isDeleting := False,
         toasts := toasts st @
           [\<lparr>toast_title = ''Erreur'',
             toast_description =
               ''Impossible de supprimer le template. Veuillez r'' @ e_acute @ ''essayer.'',
             toast_destructive = True\<rparr>],
         requests := requests st @ [delete_request active]\<rparr>"
    by blast
  show "templates (handleDelete delete_reply list_reply st) = templates st"
    and "activeTemplate (handleDelete delete_reply list_reply st) = activeTemplate st"
    and "editedTemplate (handleDelete delete_reply list_reply st) = editedTemplate st"
    and "heap (handleDelete delete_reply list_reply st) = heap st"
    and "\<exists>msg. error (handleDelete delete_reply list_reply st) =
            Some (''Erreur lors de la suppression: '' @ msg)"
    and "toasts (handleDelete delete_reply list_reply st) =
          toasts st @
            [\<lparr>toast_title = ''Erreur'',
              toast_description =
                ''Impossible de supprimer le template. Veuillez r'' @ e_acute @ ''essayer.'',
              toast_destructive = True\<rparr>]"
    and "requests (handleDelete delete_reply list_reply st) =
          requests st @ [delete_request active]"
    by (simp_all add: m)
next
  assume a: "activeTemplate st = Some active \<and> tpl_is_custom active \<and> \<not> failed delete_reply"
  then obtain response where r: "delete_reply = Responded response" "ok response"
    by (auto simp: not_failed_iff)
  from a have h: "activeTemplate st = Some active" "tpl_is_custom active" by simp_all
  show "activeTemplate (handleDelete delete_reply list_reply st) = None"
    by (rule handleDelete_done[OF h r])
  show "editedTemplate (handleDelete delete_reply list_reply st) = None"
    by (rule handleDelete_done[OF h r])
  show "requests (handleDelete delete_reply list_reply st) =
          requests st @ [delete_request active, list_request]"
    by (rule handleDelete_done[OF h r])
  show "templates (handleDelete delete_reply list_reply st) =
          templates (fetchTemplates list_reply st)"
    by (rule handleDelete_done[OF h r])
qed

text \<open>
  With a default template active nothing happens; with the custom template active, a
  status 500 leaves the selection, and a status 204 clears it.
\<close>

theorem handleDelete_effects_witness:
  "(\<exists>t. activeTemplate st_default = Some t \<and> \<not> tpl_is_custom t)
   \<and> handleDelete (reply_status_only 204) (reply_json []) st_default = st_default
   \<and> activeTemplate st_custom = Some tpl_custom_42 \<and> tpl_is_custom tpl_custom_42
   \<and> failed (reply_status_only 500 :: unit fetch_result)
   \<and> \<not> failed (reply_status_only 204 :: unit fetch_result)
   \<and> templates (handleDelete (reply_status_only 500) (reply_json []) st_custom) = templates st_custom
   \<and> activeTemplate (handleDelete (reply_status_only 500) (reply_json []) st_custom) =
       Some tpl_custom_42
   \<and> editedTemplate (handleDelete (reply_status_only 500) (reply_json []) st_custom) =
       editedTemplate st_custom
   \<and> activeTemplate (handleDelete (reply_status_only 204) (reply_json []) st_custom) = None
   \<and> editedTemplate (handleDelete (reply_status_only 204) (reply_json []) st_custom) = None
   \<and> requests (handleDelete (reply_status_only 204) (reply_json []) st_custom) =
       [delete_request tpl_custom_42, list_request]"
proof -
  have d: "\<exists>t. activeTemplate st_default = Some t \<and> \<not> tpl_is_custom t"
    by (simp add: st_default_def tpl_default_7_def)
  have c: "activeTemplate st_custom = Some tpl_custom_42 \<and> tpl_is_custom tpl_custom_42"
    by (simp add: st_custom_def tpl_custom_42_def)
  have f: "failed (reply_status_only 500 :: unit fetch_result)"
    "\<not> failed (reply_status_only 204 :: unit fetch_result)"
    by (simp_all add: reply_status_only_def ok_def)
  have q: "requests st_custom = []"
    by (simp add: st_custom_def st_listed_def st_empty_def)
  note n = handleDelete_effects[of st_default "reply_status_only 204" "reply_json []" tpl_default_7]
  note x = handleDelete_effects[of st_custom "reply_status_only 500" "reply_json []" tpl_custom_42]
  note y = handleDelete_effects[of st_custom "reply_status_only 204" "reply_json []" tpl_custom_42]
  from n d have 1: "handleDelete (reply_status_only 204) (reply_json []) st_default = st_default"
    by blast
  from x c f(1) have 2:
    "templates (handleDelete (reply_status_only 500) (reply_json []) st_custom) = templates st_custom"
    "activeTemplate (handleDelete (reply_status_only 500) (reply_json []) st_custom) = Some tpl_custom_42"
    "editedTemplate (handleDelete (reply_status_only 500) (reply_json []) st_custom) = editedTemplate st_custom"
    by simp_all
  from y c f(2) q have 3:
    "activeTemplate (handleDelete (reply_status_only 204) (reply_json []) st_custom) = None"
    "editedTemplate (handleDelete (reply_status_only 204) (reply_json []) st_custom) = None"
    "requests (handleDelete (reply_status_only 204) (reply_json []) st_custom) =
       [delete_request tpl_custom_42, list_request]"
    by simp_all
  from d c f 1 2 3 show ?thesis by blast
qed

subsection \<open>Validation of the sections on save\<close>

lemma handleSave_catch_fields [simp]:
  "success (handleSave_catch err st) = success st"
  "error (handleSave_catch err st) = Some (''Erreur lors de la sauvegarde: '' @ message err)"
  by (simp_all add: handleSave_catch_def)

lemma fetchTemplates_success [simp]:
  "success (fetchTemplates reply st) = success st"
  by (simp add: fetchTemplates_def)

lemma handleSave_saved_success [simp]:
  "success (handleSave_saved json list_reply st) = Some saved_message"
  by (simp add: handleSave_saved_def Let_def split_beta saved_message_def)

lemma handleSave_try_sections:
  assumes "is_section_array (tpl_sections edited)"
  shows "\<exists>rest. requests (handleSave_try edited save_reply list_reply st) =
           requests st @
           \<lparr>req_method = (if isNewTemplate (tpl_id edited) then POST else PUT),
             req_url = (if isNewTemplate (tpl_id edited) then backend
                        else backend @ ''/'' @ id_text (tpl_id edited)),
             req_body = Some
               \<lparr>body_name = tpl_name edited, body_description = tpl_description edited,
                 body_sections =
                   map (\<lambda>x. Some (validate_section (spread_object (heap st) x))) (tpl_sections edited),
                 body_is_default = tpl_is_default edited\<rparr>\<rparr> # rest"
  using validatedSections_section_array[OF assms, of "heap st"]
  by (simp add: handleSave_try_def Let_def split: fetch_result.split sum.split)

lemma handleSave_try_success:
  assumes "is_section_array (tpl_sections edited)" and "success st = None"
  shows "success (handleSave_try edited save_reply list_reply st) =
           (if delivered save_reply then Some saved_message else None)"
  using validatedSections_section_array[OF assms(1), of "heap st"] assms(2)
  by (simp add: handleSave_try_def Let_def split: fetch_result.split sum.split)

lemma handleSave_try_error:
  assumes "is_section_array (tpl_sections edited)" and "\<not> delivered save_reply"
  shows "\<exists>msg. error (handleSave_try edited save_reply list_reply st) =
           Some (''Erreur lors de la sauvegarde: '' @ msg)"
  using validatedSections_section_array[OF assms(1), of "heap st"] assms(2)
  by (auto simp add: handleSave_try_def Let_def split: fetch_result.split sum.split)

text \<open>
  Claim C4. The validation pass of \<open>handleSave\<close> gives every section a fixed default in
  place of each missing field among name, description, required, default\_enabled, order,
  rag\_query\_template and prompt\_template. It is a total function of the section, and
  the request carries the validated sections, whatever fields the sections of the edit
  buffer lack. The save then succeeds exactly when the backend delivers an ok response
  with a JSON body; otherwise the error message of the save is set.
\<close>

theorem handleSave_defaults:
  "(sec_name s = JUndefined \<longrightarrow> sec_name (validate_section s) = JStr ''Section sans nom'')
   \<and> (sec_description s = JUndefined \<longrightarrow>
        sec_description (validate_section s) = JStr ''Description de la section'')
   \<and> (sec_required s = JUndefined \<longrightarrow> sec_required (validate_section s) = JBool False)
   \<and> (sec_default_enabled s = JUndefined \<longrightarrow>
        sec_default_enabled (validate_section s) = JBool True)
   \<and> (sec_order s = JUndefined \<longrightarrow> sec_order (validate_section s) = JNum 0)
   \<and> (sec_rag_query_template s = JUndefined \<longrightarrow>
        sec_rag_query_template (validate_section s) = JStr default_rag_query_template)
   \<and> (sec_prompt_template s = JUndefined \<longrightarrow>
        sec_prompt_template (validate_section s) = JStr default_prompt_template)
   \<and> (editedTemplate st = Some edited \<and> is_section_array (tpl_sections edited) \<longrightarrow>
        (\<exists>m u rest. requests (handleSave save_reply list_reply st) =
           requests st @
           \<lparr>req_method = m, req_url = u,
             req_body = Some
               \<lparr>body_name = tpl_name edited, body_description = tpl_description edited,
                 body_sections =
                   map (\<lambda>x. Some (validate_section (spread_object (heap st) x))) (tpl_sections edited),
                 body_is_default = tpl_is_default edited\<rparr>\<rparr> # rest)
        \<and> (delivered save_reply \<longrightarrow>
              success (handleSave save_reply list_reply st) = Some saved_message)
        \<and> (\<not> delivered save_reply \<longrightarrow>
              success (handleSave save_reply list_reply st) = None
              \<and> (\<exists>msg. error (handleSave save_reply list_reply st) =
                    Some (''Erreur lors de la sauvegarde: '' @ msg))))"
proof -
  have save: "(\<exists>m u rest. requests (handleSave save_reply list_reply st) =
           requests st @
           \<lparr>req_method = m, req_url = u,
             req_body = Some
               \<lparr>body_name = tpl_name edited, body_description = tpl_description edited,
                 body_sections =
                   map (\<lambda>x. Some (validate_section (spread_object (heap st) x))) (tpl_sections edited),
                 body_is_default = tpl_is_default edited\<rparr>\<rparr> # rest)
        \<and> (delivered save_reply \<longrightarrow>
              success (handleSave save_reply list_reply st) = Some saved_message)
        \<and> (\<not> delivered save_reply \<longrightarrow>
              success (handleSave save_reply list_reply st) = None
              \<and> (\<exists>msg. error (handleSave save_reply list_reply st) =
                    Some (''Erreur lors de la sauvegarde: '' @ msg)))"
    if e: "editedTemplate st = Some edited" and w: "is_section_array (tpl_sections edited)"
  proof -
    let ?st = "st\<lparr>isSaving := True, error := None, success := None\<rparr>"
    have hs: "handleSave save_reply list_reply st =
        (handleSave_try edited save_reply list_reply ?st)\<lparr>isSaving := False\<rparr>"
      using e by (simp add: handleSave_def)
    from handleSave_try_sections[OF w, of save_reply list_reply ?st]
    have r: "\<exists>m u rest. requests (handleSave save_reply list_reply st) =
           requests st @
           \<lparr>req_method = m, req_url = u,
             req_body = Some
               \<lparr>body_name = tpl_name edited, body_description = tpl_description edited,
                 body_sections =
                   map (\<lambda>x. Some (validate_section (spread_object (heap st) x))) (tpl_sections edited),
                 body_is_default = tpl_is_default edited\<rparr>\<rparr> # rest"
      unfolding hs by simp blast
    have s: "success (handleSave save_reply list_reply st) =
        (if delivered save_reply then Some saved_message else None)"
      unfolding hs using handleSave_try_success[OF w, of ?st save_reply list_reply] by simp
    have x: "\<exists>msg. error (handleSave save_reply list_reply st) =
                    Some (''Erreur lors de la sauvegarde: '' @ msg)"
      if "\<not> delivered save_reply"
      unfolding hs using handleSave_try_error[OF w that, of list_reply ?st] by simp
    from r s x show ?thesis by simp
  qed
  show ?thesis
    using save by (simp add: validate_section_def js_or_def)
qed


text \<open>
  A section with an id and no other field is sent with the seven defaults; the save
  succeeds with a delivered reply and fails with a status 500.
\<close>

theorem handleSave_defaults_witness:
  "sec_name (empty_object\<lparr>sec_id := JStr ''extra''\<rparr>) = JUndefined
   \<and> sec_order (empty_object\<lparr>sec_id := JStr ''extra''\<rparr>) = JUndefined
   \<and> validate_section (empty_object\<lparr>sec_id := JStr ''extra''\<rparr>) =
       \<lparr>sec_id = JStr ''extra'', sec_name = JStr ''Section sans nom'',
        sec_description = JStr ''Description de la section'',
        sec_required = JBool False, sec_default_enabled = JBool True, sec_order = JNum 0,
        sec_rag_query_template = JStr default_rag_query_template,
        sec_prompt_template = JStr default_prompt_template\<rparr>
   \<and> editedTemplate st_incomplete = Some (tpl_custom_42\<lparr>tpl_sections := [Obj 4, Obj 5]\<rparr>)
   \<and> is_section_array (tpl_sections (tpl_custom_42\<lparr>tpl_sections := [Obj 4, Obj 5]\<rparr>))
   \<and> delivered (reply_json json_saved)
   \<and> success (handleSave (reply_json json_saved) (reply_json []) st_incomplete) = Some saved_message
   \<and> \<not> delivered (reply_status_only 500 :: Section option Template fetch_result)
   \<and> success (handleSave (reply_status_only 500) (reply_json []) st_incomplete) = None"
proof -
  let ?s = "empty_object\<lparr>sec_id := JStr ''extra''\<rparr>"
  let ?E = "tpl_custom_42\<lparr>tpl_sections := [Obj 4, Obj 5]\<rparr>"
  have u: "sec_name ?s = JUndefined" "sec_description ?s = JUndefined"
    "sec_required ?s = JUndefined" "sec_default_enabled ?s = JUndefined"
    "sec_order ?s = JUndefined" "sec_rag_query_template ?s = JUndefined"
    "sec_prompt_template ?s = JUndefined"
    by (simp_all add: empty_object_def)
  have i: "sec_id (validate_section ?s) = JStr ''extra''"
    by (simp add: validate_section_def)
  have e: "editedTemplate st_incomplete = Some ?E \<and> is_section_array (tpl_sections ?E)"
    by (simp add: st_incomplete_def st_custom_def is_section_array_def)
  have d: "delivered (reply_json json_saved)"
    "\<not> delivered (reply_status_only 500 :: Section option Template fetch_result)"
    by (simp_all add: reply_json_def reply_status_only_def ok_def)
  note a = handleSave_defaults[of ?s st_incomplete ?E "reply_json json_saved" "reply_json []"]
  note b = handleSave_defaults[of ?s st_incomplete ?E "reply_status_only 500" "reply_json []"]
  from a u i have v: "validate_section ?s =
       \<lparr>sec_id = JStr ''extra'', sec_name = JStr ''Section sans nom'',
        sec_description = JStr ''Description de la section'',
        sec_required = JBool False, sec_default_enabled = JBool True, sec_order = JNum 0,
        sec_rag_query_template = JStr default_rag_query_template,
        sec_prompt_template = JStr default_prompt_template\<rparr>"
    by (cases "validate_section ?s") simp
  from a e d(1) have s1:
    "success (handleSave (reply_json json_saved) (reply_json []) st_incomplete) = Some saved_message"
    by blast
  from b e d(2) have s2:
    "success (handleSave (reply_status_only 500) (reply_json []) st_incomplete) = None"
    by blast
  from u v e d s1 s2 show ?thesis by blast
qed

subsection \<open>Order values after adding and deleting a section\<close>

lemma list_all_splice1:
  "list_all P xs \<Longrightarrow> list_all P (splice1 xs i)"
  by (auto simp: splice1_def list_all_iff dest: in_set_takeD in_set_dropD)

lemma distinct_splice1:
  assumes "distinct xs"
  shows "distinct (splice1 xs i)"
proof (cases "i < length xs")
  case True
  then have "xs = take i xs @ xs ! i # drop (Suc i) xs"
    by (rule id_take_nth_drop)
  with assms have "distinct (take i xs @ xs ! i # drop (Suc i) xs)" by simp
  then show ?thesis by (simp add: splice1_def)
next
  case False
  with assms show ?thesis by (simp add: splice1_def)
qed

lemma wf_sections_splice1:
  "wf_sections h xs \<Longrightarrow> wf_sections h (splice1 xs i)"
  by (simp add: wf_sections_def is_section_array_def allocated_def list_all_splice1 distinct_splice1)

lemma length_splice1:
  "i < length xs \<Longrightarrow> length (splice1 xs i) = length xs - 1"
  by (simp add: splice1_def)

lemma renumber_section_array:
  assumes "wf_sections h xs"
  shows "\<exists>h'. renumber k xs h = Inr h' \<and> length h' = length h
      \<and> section_orders h' xs = map (\<lambda>i. JNum (int i + 1)) [k..<k + length xs]
      \<and> (\<forall>b. Obj b \<notin> set xs \<longrightarrow> h' ! b = h ! b)"
  using assms
proof (induction xs arbitrary: k h)
  case Nil
  show ?case by (simp add: section_orders_def)
next
  case (Cons x xs)
  from Cons.prems obtain a where x: "x = Obj a"
    by (cases x) (simp_all add: wf_sections_def is_section_array_def)
  from Cons.prems x have a: "a < length h" and nin: "Obj a \<notin> set xs"
    by (simp_all add: wf_sections_def allocated_def)
  let ?h1 = "h[a := (h ! a)\<lparr>sec_order := JNum (int k + 1)\<rparr>]"
  have "wf_sections ?h1 xs"
    using Cons.prems by (simp add: wf_sections_def is_section_array_def allocated_def list_all_iff
        split: slot.splits) (metis allocated_slot.simps length_list_update slot.exhaust)
  from Cons.IH[OF this, of "Suc k"] obtain h' where
    r: "renumber (Suc k) xs ?h1 = Inr h'" and l: "length h' = length ?h1"
    and o: "section_orders h' xs = map (\<lambda>i. JNum (int i + 1)) [Suc k..<Suc k + length xs]"
    and f: "\<forall>b. Obj b \<notin> set xs \<longrightarrow> h' ! b = ?h1 ! b"
    by blast
  from f nin a have ha: "h' ! a = (h ! a)\<lparr>sec_order := JNum (int k + 1)\<rparr>" by simp
  have up: "[k..<k + length (x # xs)] = k # [Suc k..<Suc k + length xs]"
    using upt_conv_Cons[of k "k + Suc (length xs)"] by simp
  have "section_orders h' (x # xs) = map (\<lambda>i. JNum (int i + 1)) [k..<k + length (x # xs)]"
    unfolding up using o ha x by (simp add: section_orders_def)
  moreover have "\<forall>b. Obj b \<notin> set (x # xs) \<longrightarrow> h' ! b = h ! b"
    using f x by auto
  ultimately show ?case
    using r l x by simp
qed

lemma contiguous_from_zero:
  "os = map (\<lambda>i. JNum (int i + 1)) [0..<0 + n] \<Longrightarrow> contiguous os"
proof -
  assume os: "os = map (\<lambda>i. JNum (int i + 1)) [0..<0 + n]"
  have "map (\<lambda>k. JNum (int k)) [1..<Suc n] = map (\<lambda>k. JNum (int k)) (map Suc [0..<n])"
    by (simp only: map_Suc_upt One_nat_def)
  also have "\<dots> = map (\<lambda>i. JNum (int i + 1)) [0..<n]"
    by (simp add: add.commute)
  finally show ?thesis using os by (simp add: contiguous_def)
qed

lemma contiguous_snoc:
  "contiguous os \<Longrightarrow> contiguous (os @ [JNum (int (length os) + 1)])"
  by (simp add: contiguous_def add.commute)

lemma section_orders_append_heap:
  "allocated h xs \<Longrightarrow> section_orders (h @ ext) xs = section_orders h xs"
proof (induction xs)
  case Nil
  show ?case by (simp add: section_orders_def)
next
  case (Cons x xs)
  then show ?case by (cases x) (simp_all add: section_orders_def allocated_def nth_append)
qed

lemma addSection_orders:
  assumes "editedTemplate st = Some edited" and "tpl_is_custom edited"
    and "wf_sections (heap st) (tpl_sections edited)"
  shows "edited_orders (addSection now st) =
         edited_orders st @ [JNum (int (length (tpl_sections edited)) + 1)]"
proof -
  from assms(3) have w: "is_section_array (tpl_sections edited)"
    and al: "allocated (heap st) (tpl_sections edited)"
    by (simp_all add: wf_sections_def)
  show ?thesis
    using assms(1,2) section_orders_append_heap[OF al]
    by (simp add: addSection_def alloc_def edited_orders_def spread_array_section_array[OF w]
        section_orders_def newSection_def)
qed

lemma addSection_unchanged:
  assumes "editedTemplate st = None \<or> (\<exists>t. editedTemplate st = Some t \<and> \<not> tpl_is_custom t)"
  shows "addSection now st = st"
  using assms by (auto simp: addSection_def)

lemma deleteSection_removes:
  assumes "editedTemplate st = Some edited" and "tpl_is_custom edited"
    and "wf_sections (heap st) (tpl_sections edited)"
    and "index < length (tpl_sections edited)"
    and "\<not> truthy (sec_required (spread_object (heap st) (tpl_sections edited ! index)))"
  shows "\<exists>st' edited'. deleteSection index st = Inr st'
      \<and> editedTemplate st' = Some edited'
      \<and> tpl_sections edited' = take index (tpl_sections edited) @ drop (Suc index) (tpl_sections edited)
      \<and> length (edited_orders st') = length (tpl_sections edited) - 1
      \<and> contiguous (edited_orders st')"
proof -
  let ?xs = "tpl_sections edited"
  from assms(3) have w: "is_section_array ?xs" by (simp add: wf_sections_def)
  obtain a where a: "?xs ! index = Obj a"
    using section_array_nth[OF w assms(4)] by blast
  have sp: "spread_array ?xs = ?xs" by (rule spread_array_section_array[OF w])
  from renumber_section_array[OF wf_sections_splice1[OF assms(3), of index], of 0]
  obtain h' where r: "renumber 0 (splice1 ?xs index) (heap st) = Inr h'"
    and o: "section_orders h' (splice1 ?xs index) =
            map (\<lambda>i. JNum (int i + 1)) [0..<0 + length (splice1 ?xs index)]"
    by blast
  let ?st' = "show_toast (''Section supprim'' @ e_acute @ ''e'')
                 (''La section a '' @ e_acute @ ''t'' @ e_acute @ '' supprim'' @ e_acute @ ''e du template.'') False
                 (st\<lparr>editedTemplate := Some (edited\<lparr>tpl_sections := splice1 ?xs index\<rparr>),
                     heap := h'\<rparr>)"
  have d: "deleteSection index st = Inr ?st'"
    using assms(1,2,4,5) a r
    by (simp add: deleteSection_def deleteSection_remove_def array_get_def sp Let_def)
  have eo: "edited_orders ?st' = section_orders h' (splice1 ?xs index)"
    by (simp add: edited_orders_def)
  have c: "contiguous (edited_orders ?st')"
    unfolding eo using o by (rule contiguous_from_zero)
  have l: "length (edited_orders ?st') = length ?xs - 1"
    unfolding eo using assms(4) by (simp add: section_orders_def length_splice1)
  show ?thesis
    using d c l
    by (intro exI[of _ ?st'] exI[of _ "edited\<lparr>tpl_sections := splice1 ?xs index\<rparr>"])
       (simp add: splice1_def)
qed

lemma deleteSection_rejects:
  assumes "editedTemplate st = Some edited" and "tpl_is_custom edited"
    and "index < length (tpl_sections edited)"
    and "tpl_sections edited ! index = Obj a"
    and "truthy (sec_required (heap st ! a))"
  shows "deleteSection index st = Inr (st\<lparr>toasts := toasts st @ [rejection_toast]\<rparr>)"
  using assms
  by (simp add: deleteSection_def array_get_def show_toast_def rejection_toast_def)

lemma deleteSection_returns:
  assumes "editedTemplate st = Some edited"
    and "wf_sections (heap st) (tpl_sections edited)"
    and "deleteSection index st = Inr st'"
  shows "edited_orders st' = edited_orders st \<or> contiguous (edited_orders st')"
proof (cases "tpl_is_custom edited")
  case False
  with assms(1,3) show ?thesis by (auto simp: deleteSection_def)
next
  case custom: True
  from assms(2) have w: "is_section_array (tpl_sections edited)" by (simp add: wf_sections_def)
  show ?thesis
  proof (cases "index < length (tpl_sections edited)")
    case False
    with assms(1,3) custom show ?thesis
      by (simp add: deleteSection_def array_get_def)
  next
    case i: True
    obtain a where a: "tpl_sections edited ! index = Obj a"
      using section_array_nth[OF w i] by blast
    show ?thesis
    proof (cases "truthy (sec_required (heap st ! a))")
      case True
      from deleteSection_rejects[OF assms(1) custom i a True] assms(3)
      have "st' = st\<lparr>toasts := toasts st @ [rejection_toast]\<rparr>" by simp
      then show ?thesis by (simp add: edited_orders_def split: option.split)
    next
      case False
      with a have "\<not> truthy (sec_required (spread_object (heap st) (tpl_sections edited ! index)))"
        by simp
      from deleteSection_removes[OF assms(1) custom assms(2) i this] assms(3)
      show ?thesis by auto
    qed
  qed
qed


text \<open>
  Claim C2 says that after any \<open>addSection\<close> or \<open>deleteSection\<close> the order values of
  the sections of the edit buffer are \<open>1..N\<close>. That fails for \<open>addSection\<close>, which
  gives the new section the order \<open>length + 1\<close> and renumbers nothing: after the order of
  the second section has been set to 5, adding a section leaves the order values 1, 5, 3.
\<close>

theorem addSection_orders_counterexample:
  "edited_orders st_reordered = [JNum 1, JNum 5]
   \<and> edited_orders (addSection 0 st_reordered) = [JNum 1, JNum 5, JNum 3]
   \<and> \<not> contiguous (edited_orders (addSection 0 st_reordered))"
proof -
  have r: "st_reordered =
      st_custom\<lparr>editedTemplate := Some (tpl_custom_42\<lparr>tpl_sections := [Obj 4, Obj 6]\<rparr>),
                heap := [sec_intro, sec_usage, sec_intro, sec_usage, sec_intro, sec_usage,
                         sec_usage\<lparr>sec_order := JNum 5\<rparr>]\<rparr>"
    by (simp add: st_reordered_def handleSectionChange_def st_custom_def st_listed_def st_empty_def
        spread_array_def array_get_def array_set_def alloc_def Let_def)
  have a: "edited_orders st_reordered = [JNum 1, JNum 5]"
    by (simp add: r edited_orders_def section_orders_def sec_intro_def sec_usage_def)
  have b: "edited_orders (addSection 0 st_reordered) = [JNum 1, JNum 5, JNum 3]"
    by (simp add: r addSection_def alloc_def spread_array_def edited_orders_def section_orders_def
        newSection_def tpl_custom_42_def sec_intro_def sec_usage_def)
  have c: "\<not> contiguous [JNum 1, JNum 5, JNum 3]"
    by (simp add: contiguous_def upt_rec)
  from a b c show ?thesis by simp
qed

text \<open>
  Claim C2, amended. For an edit buffer whose sections are distinct section objects of
  the store: if the order values are \<open>1..N\<close> before \<open>addSection\<close>, they are \<open>1..N'\<close>
  after it, and on a custom buffer \<open>addSection\<close> appends one section, whose order is the
  new number of sections, and leaves the other order values as they are; if the order
  values are \<open>1..N\<close> before a \<open>deleteSection\<close> that returns, they are \<open>1..N'\<close> after it;
  and a \<open>deleteSection\<close> that removes a section (custom buffer, index of a section that
  is not required) leaves the order values \<open>1..N\<close> of the \<open>N\<close> remaining sections,
  whatever they were before.
\<close>

theorem section_orders_after_add_or_delete:
  assumes "editedTemplate st = Some edited"
    and "wf_sections (heap st) (tpl_sections edited)"
  shows "(contiguous (edited_orders st) \<longrightarrow> contiguous (edited_orders (addSection now st)))
    \<and> (tpl_is_custom edited \<longrightarrow>
          edited_orders (addSection now st) =
          edited_orders st @ [JNum (int (length (tpl_sections edited)) + 1)])
    \<and> (\<forall>st'. deleteSection index st = Inr st' \<and> contiguous (edited_orders st) \<longrightarrow>
          contiguous (edited_orders st'))
    \<and> (tpl_is_custom edited \<and> index < length (tpl_sections edited)
         \<and> \<not> truthy (sec_required (spread_object (heap st) (tpl_sections edited ! index))) \<longrightarrow>
          (\<exists>st' edited'. deleteSection index st = Inr st'
             \<and> editedTemplate st' = Some edited'
             \<and> tpl_sections edited' =
                 take index (tpl_sections edited) @ drop (Suc index) (tpl_sections edited)
             \<and> length (edited_orders st') = length (tpl_sections edited) - 1
             \<and> contiguous (edited_orders st')))"
proof (intro conjI impI allI)
  have len: "length (edited_orders st) = length (tpl_sections edited)"
    using assms(1) by (simp add: edited_orders_def section_orders_def)
  show "contiguous (edited_orders (addSection now st))" if c: "contiguous (edited_orders st)"
  proof (cases "tpl_is_custom edited")
    case True
    from contiguous_snoc[OF c] show ?thesis
      by (simp add: addSection_orders[OF assms(1) True assms(2)] len)
  next
    case False
    with assms(1) have "addSection now st = st"
      by (intro addSection_unchanged) simp
    with c show ?thesis by simp
  qed
  show "edited_orders (addSection now st) =
        edited_orders st @ [JNum (int (length (tpl_sections edited)) + 1)]"
    if "tpl_is_custom edited"
    by (rule addSection_orders[OF assms(1) that assms(2)])
  show "contiguous (edited_orders st')"
    if "deleteSection index st = Inr st' \<and> contiguous (edited_orders st)" for st'
    using deleteSection_returns[OF assms, of index st'] that by auto
  show "\<exists>st' edited'. deleteSection index st = Inr st'
             \<and> editedTemplate st' = Some edited'
             \<and> tpl_sections edited' =
                 take index (tpl_sections edited) @ drop (Suc index) (tpl_sections edited)
             \<and> length (edited_orders st') = length (tpl_sections edited) - 1
             \<and> contiguous (edited_orders st')"
    if "tpl_is_custom edited \<and> index < length (tpl_sections edited)
         \<and> \<not> truthy (sec_required (spread_object (heap st) (tpl_sections edited ! index)))"
    using that by (intro deleteSection_removes[OF assms(1) _ assms(2)]) simp_all
qed

text \<open>
  On the custom edit buffer of the example, whose order values are 1, 2: they are
  \<open>1..3\<close> after adding; deleting the second section, which is not required, leaves one
  section, of order 1.
\<close>

theorem section_orders_after_add_or_delete_witness:
  "editedTemplate st_custom = Some (tpl_custom_42\<lparr>tpl_sections := [Obj 4, Obj 5]\<rparr>)
   \<and> wf_sections (heap st_custom) (tpl_sections (tpl_custom_42\<lparr>tpl_sections := [Obj 4, Obj 5]\<rparr>))
   \<and> contiguous (edited_orders st_custom)
   \<and> tpl_is_custom (tpl_custom_42\<lparr>tpl_sections := [Obj 4, Obj 5]\<rparr>)
   \<and> \<not> truthy (sec_required (spread_object (heap st_custom) (Obj 5)))
   \<and> contiguous (edited_orders (addSection 0 st_custom))
   \<and> edited_orders (addSection 0 st_custom) = [JNum 1, JNum 2, JNum 3]
   \<and> (\<exists>st'. deleteSection 1 st_custom = Inr st'
         \<and> length (edited_orders st') = 1 \<and> contiguous (edited_orders st'))"
proof -
  let ?E = "tpl_custom_42\<lparr>tpl_sections := [Obj 4, Obj 5]\<rparr>"
  have e: "editedTemplate st_custom = Some ?E"
    by (simp add: st_custom_def)
  have w: "wf_sections (heap st_custom) (tpl_sections ?E)"
    by (simp add: st_custom_def st_listed_def st_empty_def wf_sections_def is_section_array_def
        allocated_def)
  have o: "edited_orders st_custom = [JNum 1, JNum 2]"
    by (simp add: st_custom_def st_listed_def st_empty_def edited_orders_def section_orders_def
        sec_intro_def sec_usage_def)
  have c: "contiguous (edited_orders st_custom)"
    by (simp add: o contiguous_def upt_rec)
  have k: "tpl_is_custom ?E"
    by (simp add: tpl_custom_42_def)
  have n: "\<not> truthy (sec_required (spread_object (heap st_custom) (Obj 5)))"
    by (simp add: st_custom_def st_listed_def st_empty_def sec_usage_def)
  note t = section_orders_after_add_or_delete[OF e w, of 0 1]
  from t c have 1: "contiguous (edited_orders (addSection 0 st_custom))" by blast
  from t k o have 2: "edited_orders (addSection 0 st_custom) = [JNum 1, JNum 2, JNum 3]" by simp
  from t k n have 3: "\<exists>st'. deleteSection 1 st_custom = Inr st'
         \<and> length (edited_orders st') = 1 \<and> contiguous (edited_orders st')"
    by auto
  from e w c k n 1 2 3 show ?thesis by blast
qed

subsection \<open>Deleting a required section\<close>

text \<open>
  Claim C3 says that for every edit buffer, \<open>deleteSection\<close> at the index of a required
  section leaves the sections unchanged and produces a rejection notification. On a
  buffer that is not custom the handler returns at its first test, before it looks at the
  section: nothing changes, and no notification is produced. In the example the buffer is
  the default template, whose first section is required.
\<close>

theorem deleteSection_required_counterexample:
  "editedTemplate st_default = Some (tpl_default_7\<lparr>tpl_sections := [Obj 4, Obj 5]\<rparr>)
   \<and> sec_required (heap st_default ! 4) = JBool True
   \<and> toasts st_default = []
   \<and> deleteSection 0 st_default = Inr st_default"
  by (simp add: deleteSection_def st_default_def st_listed_def st_empty_def tpl_default_7_def
      sec_intro_def)

text \<open>
  Claim C3, amended. For every custom edit buffer and every index of a section whose
  \<open>required\<close> is true (or any other truthy value), \<open>deleteSection\<close> returns with the
  edit buffer, its sections and the store unchanged, and with the rejection toast as its
  one notification. On an edit buffer that is not custom it returns the state as it is.
\<close>

theorem deleteSection_required_rejected:
  assumes "editedTemplate st = Some edited"
    and "index < length (tpl_sections edited)"
    and "tpl_sections edited ! index = Obj a"
    and "truthy (sec_required (heap st ! a))"
  shows "(tpl_is_custom edited \<longrightarrow>
      (\<exists>st'. deleteSection index st = Inr st'
         \<and> editedTemplate st' = editedTemplate st \<and> heap st' = heap st
         \<and> edited_orders st' = edited_orders st
         \<and> templates st' = templates st \<and> activeTemplate st' = activeTemplate st
         \<and> toasts st' = toasts st @ [rejection_toast]))
    \<and> (\<not> tpl_is_custom edited \<longrightarrow> deleteSection index st = Inr st)"
proof (intro conjI impI)
  assume "tpl_is_custom edited"
  from deleteSection_rejects[OF assms(1) this assms(2,3,4)]
  show "\<exists>st'. deleteSection index st = Inr st'
         \<and> editedTemplate st' = editedTemplate st \<and> heap st' = heap st
         \<and> edited_orders st' = edited_orders st
         \<and> templates st' = templates st \<and> activeTemplate st' = activeTemplate st
         \<and> toasts st' = toasts st @ [rejection_toast]"
    by (simp add: edited_orders_def split: option.split)
next
  assume "\<not> tpl_is_custom edited"
  with assms(1) show "deleteSection index st = Inr st"
    by (simp add: deleteSection_def)
qed

text \<open>The first section of the custom edit buffer of the example is required.\<close>

theorem deleteSection_required_rejected_witness:
  "editedTemplate st_custom = Some (tpl_custom_42\<lparr>tpl_sections := [Obj 4, Obj 5]\<rparr>)
   \<and> (0::nat) < length (tpl_sections (tpl_custom_42\<lparr>tpl_sections := [Obj 4, Obj 5]\<rparr>))
   \<and> tpl_sections (tpl_custom_42\<lparr>tpl_sections := [Obj 4, Obj 5]\<rparr>) ! 0 = Obj 4
   \<and> truthy (sec_required (heap st_custom ! 4))
   \<and> tpl_is_custom (tpl_custom_42\<lparr>tpl_sections := [Obj 4, Obj 5]\<rparr>)
   \<and> (\<exists>st'. deleteSection 0 st_custom = Inr st'
         \<and> editedTemplate st' = editedTemplate st_custom \<and> heap st' = heap st_custom
         \<and> toasts st' = [rejection_toast])"
proof -
  let ?E = "tpl_custom_42\<lparr>tpl_sections := [Obj 4, Obj 5]\<rparr>"
  have e: "editedTemplate st_custom = Some ?E"
    by (simp add: st_custom_def)
  have i: "(0::nat) < length (tpl_sections ?E)" "tpl_sections ?E ! 0 = Obj 4"
    by simp_all
  have q: "truthy (sec_required (heap st_custom ! 4))"
    by (simp add: st_custom_def st_listed_def st_empty_def sec_intro_def)
  have k: "tpl_is_custom ?E"
    by (simp add: tpl_custom_42_def)
  have t: "toasts st_custom = []"
    by (simp add: st_custom_def st_listed_def st_empty_def)
  from deleteSection_required_rejected[OF e i q] k t
  have "\<exists>st'. deleteSection 0 st_custom = Inr st'
         \<and> editedTemplate st' = editedTemplate st_custom \<and> heap st' = heap st_custom
         \<and> toasts st' = [rejection_toast]"
    by auto
  with e i q k show ?thesis by blast
qed

subsection \<open>The proxy handlers\<close>

text \<open>
  Claim C5 says that on any failure a proxy handler answers with status 500 and a
  \<open>details\<close> string that is not empty. The handler copies \<open>error.message\<close> into
  \<open>details\<close> and tests nothing: when the exception that the client throws has an empty
  message, \<open>details\<close> is the empty string.
\<close>

theorem proxy_details_counterexample:
  "reply_status (rag_POST None axios_silent (Inr ())) = 500
   \<and> details (rag_POST None axios_silent (Inr ())) = Some []"
  by (simp add: rag_POST_def proxy_post_def proxy_failure_def axios_silent_def)

text \<open>
  Claim C5, amended. Every proxy handler returns a reply, whatever the runtime and the
  client do. When the request body parses (for a \<open>POST\<close>) and the client returns, the
  reply has status 200 and the data of the backend as its body. When reading the request
  body or the call of the client throws, the reply has status 500 and the body
  \<open>{error, details, stack}\<close>, where \<open>error\<close> is the fixed message of the handler,
  \<open>details\<close> is the message of the exception and \<open>stack\<close> is its stack; so \<open>details\<close>
  is not empty exactly when the message of the exception is not empty. The four \<open>POST\<close>
  handlers are instances of one scheme and differ in the URL and the fixed message.
\<close>

theorem proxy_replies:
  "((request_json = Inl err \<or> (request_json = Inr d \<and> axios_post url d = Inl err)) \<longrightarrow>
      proxy_post url msg axios_post request_json =
        \<lparr>reply_status = 500, reply_body = Failure msg (thrown_message err) (thrown_stack err)\<rparr>
      \<and> details (proxy_post url msg axios_post request_json) = Some (thrown_message err))
   \<and> (request_json = Inr d \<and> axios_post url d = Inr response_data \<longrightarrow>
      proxy_post url msg axios_post request_json =
        \<lparr>reply_status = 200, reply_body = Data response_data\<rparr>)
   \<and> (axios_get (API_URL env ''http://127.0.0.1:8050'' @ ''/templates'') = Inl err \<longrightarrow>
      template_GET env axios_get =
        \<lparr>reply_status = 500,
          reply_body = Failure (''Erreur lors de la r'' @ e_acute @ ''cup'' @ e_acute @ ''ration des templates'')
                         (thrown_message err) (thrown_stack err)\<rparr>
      \<and> details (template_GET env axios_get) = Some (thrown_message err))
   \<and> (axios_get (API_URL env ''http://127.0.0.1:8050'' @ ''/templates'') = Inr response_data \<longrightarrow>
      template_GET env axios_get = \<lparr>reply_status = 200, reply_body = Data response_data\<rparr>)
   \<and> template_POST env axios_post request_json =
        proxy_post (API_URL env ''http://127.0.0.1:8050'' @ ''/templates/generate'')
          (''Erreur lors de la g'' @ e_acute @ ''n'' @ e_acute @ ''ration avec template'')
          axios_post request_json
   \<and> generate_POST env axios_post request_json =
        proxy_post (API_URL env ''http://127.0.0.1:8050'' @ ''/generate-product-description'')
          (''Erreur lors de la g'' @ e_acute @ ''n'' @ e_acute @ ''ration de la description'')
          axios_post request_json
   \<and> rag_POST env axios_post request_json =
        proxy_post (API_URL env ''http://127.0.0.1:8050'' @ ''/generate-with-rag'')
          (''Erreur lors de la g'' @ e_acute @ ''n'' @ e_acute @ ''ration avec RAG'')
          axios_post request_json
   \<and> rag_backend_POST env axios_post request_json =
        proxy_post (API_URL env ''http://rfp-backend:8050'' @ ''/generate-with-rag'')
          (''Erreur lors de la g'' @ e_acute @ ''n'' @ e_acute @ ''ration avec RAG'')
          axios_post request_json"
proof -
  have p: "((request_json = Inl err \<or> (request_json = Inr d \<and> axios_post url d = Inl err)) \<longrightarrow>
      proxy_post url msg axios_post request_json =
        \<lparr>reply_status = 500, reply_body = Failure msg (thrown_message err) (thrown_stack err)\<rparr>
      \<and> details (proxy_post url msg axios_post request_json) = Some (thrown_message err))
   \<and> (request_json = Inr d \<and> axios_post url d = Inr response_data \<longrightarrow>
      proxy_post url msg axios_post request_json =
        \<lparr>reply_status = 200, reply_body = Data response_data\<rparr>)"
    by (auto simp: proxy_post_def proxy_failure_def proxy_success_def)
  have g: "(axios_get (API_URL env ''http://127.0.0.1:8050'' @ ''/templates'') = Inl err \<longrightarrow>
      template_GET env axios_get =
        \<lparr>reply_status = 500,
          reply_body = Failure (''Erreur lors de la r'' @ e_acute @ ''cup'' @ e_acute @ ''ration des templates'')
                         (thrown_message err) (thrown_stack err)\<rparr>
      \<and> details (template_GET env axios_get) = Some (thrown_message err))
   \<and> (axios_get (API_URL env ''http://127.0.0.1:8050'' @ ''/templates'') = Inr response_data \<longrightarrow>
      template_GET env axios_get = \<lparr>reply_status = 200, reply_body = Data response_data\<rparr>)"
    by (simp add: template_GET_def proxy_failure_def proxy_success_def)
  have h: "template_POST env axios_post request_json =
        proxy_post (API_URL env ''http://127.0.0.1:8050'' @ ''/templates/generate'')
          (''Erreur lors de la g'' @ e_acute @ ''n'' @ e_acute @ ''ration avec template'')
          axios_post request_json"
    "generate_POST env axios_post request_json =
        proxy_post (API_URL env ''http://127.0.0.1:8050'' @ ''/generate-product-description'')
          (''Erreur lors de la g'' @ e_acute @ ''n'' @ e_acute @ ''ration de la description'')
          axios_post request_json"
    "rag_POST env axios_post request_json =
        proxy_post (API_URL env ''http://127.0.0.1:8050'' @ ''/generate-with-rag'')
          (''Erreur lors de la g'' @ e_acute @ ''n'' @ e_acute @ ''ration avec RAG'')
          axios_post request_json"
    "rag_backend_POST env axios_post request_json =
        proxy_post (API_URL env ''http://rfp-backend:8050'' @ ''/generate-with-rag'')
          (''Erreur lors de la g'' @ e_acute @ ''n'' @ e_acute @ ''ration avec RAG'')
          axios_post request_json"
    by (simp_all only: template_POST_def generate_POST_def rag_POST_def rag_backend_POST_def)
  from p g h show ?thesis by blast
qed

text \<open>
  The route of the generation with retrieval, with no address in the environment: when
  the backend refuses the connection the reply is 500 with the message of the client as
  \<open>details\<close>, and when the backend answers the reply is 200 with its data.
\<close>

theorem proxy_replies_witness:
  "axios_refused (''http://127.0.0.1:8050'' @ ''/generate-with-rag'') () =
      Inl \<lparr>thrown_message = ''connect ECONNREFUSED 127.0.0.1:8050'',
           thrown_stack = ''AxiosError: connect ECONNREFUSED 127.0.0.1:8050''\<rparr>
   \<and> reply_status (rag_POST None axios_refused (Inr ())) = 500
   \<and> details (rag_POST None axios_refused (Inr ())) = Some ''connect ECONNREFUSED 127.0.0.1:8050''
   \<and> axios_echo (''http://127.0.0.1:8050'' @ ''/generate-with-rag'') () = Inr ()
   \<and> rag_POST None axios_echo (Inr ()) = \<lparr>reply_status = 200, reply_body = Data ()\<rparr>"
proof -
  let ?url = "''http://127.0.0.1:8050'' @ ''/generate-with-rag''"
  let ?msg = "''Erreur lors de la g'' @ e_acute @ ''n'' @ e_acute @ ''ration avec RAG''"
  let ?err = "\<lparr>thrown_message = ''connect ECONNREFUSED 127.0.0.1:8050'',
           thrown_stack = ''AxiosError: connect ECONNREFUSED 127.0.0.1:8050''\<rparr>"
  have u: "API_URL None ''http://127.0.0.1:8050'' @ ''/generate-with-rag'' = ?url"
    by (simp add: API_URL_def)
  have r: "axios_refused ?url () = Inl ?err"
    by (simp add: axios_refused_def)
  have e: "axios_echo ?url () = Inr ()"
    by (simp add: axios_echo_def)
  note a = proxy_replies[of "Inr ()" ?err "()" axios_refused ?url ?msg "()" "\<lambda>u. Inl ?err" None]
  note b = proxy_replies[of "Inr ()" ?err "()" axios_echo ?url ?msg "()" "\<lambda>u. Inl ?err" None]
  from a r u have 1: "reply_status (rag_POST None axios_refused (Inr ())) = 500"
    "details (rag_POST None axios_refused (Inr ())) = Some ''connect ECONNREFUSED 127.0.0.1:8050''"
    by simp_all
  from b e u have 2: "rag_POST None axios_echo (Inr ()) = \<lparr>reply_status = 200, reply_body = Data ()\<rparr>"
    by simp
  from r e 1 2 show ?thesis by blast
qed

end
